theory Spec2Isabelle
  imports Complex_Main
begin

section \<open>The 2D canvas the engine draws on\<close>

text \<open>
  The map engine (\<^verbatim>\<open>MapEngine\<close>, \<^verbatim>\<open>StochasticStamp\<close>) is written against the
  browser's 2D canvas. JavaScript numbers are idealised as reals (no NaN, no infinities,
  no rounding). A bitmap is a function from integer pixel coordinates to a pixel with
  premultiplied colour channels and an alpha in the last component; on premultiplied
  pixels the Porter-Duff operators are the linear formulas below.
\<close>

datatype pixel = Pixel (pr: real) (pg: real) (pb: real) (pa: real)

definition transparent :: pixel where
  "transparent = Pixel 0 0 0 0"

definition px_scale :: "real \<Rightarrow> pixel \<Rightarrow> pixel" where
  "px_scale k p = Pixel (k * pr p) (k * pg p) (k * pb p) (k * pa p)"

definition px_add :: "pixel \<Rightarrow> pixel \<Rightarrow> pixel" where
  "px_add p q = Pixel (pr p + pr q) (pg p + pg q) (pb p + pb q) (pa p + pa q)"

text \<open>The values of \<^verbatim>\<open>globalCompositeOperation\<close> the engine uses.\<close>

datatype compop = SourceOver | DestinationOut | DestinationIn | SourceAtop

fun blend :: "compop \<Rightarrow> pixel \<Rightarrow> pixel \<Rightarrow> pixel" where
  "blend SourceOver s d = px_add s (px_scale (1 - pa s) d)"
| "blend DestinationOut s d = px_scale (1 - pa s) d"
| "blend DestinationIn s d = px_scale (pa s) d"
| "blend SourceAtop s d = px_add (px_scale (pa d) s) (px_scale (1 - pa s) d)"

type_synonym image = "int \<times> int \<Rightarrow> pixel"

text \<open>A canvas element (or a decoded image): its pixel dimensions and its bitmap.\<close>

record canvas =
  width :: int
  height :: int
  pix :: image

definition in_canvas :: "canvas \<Rightarrow> int \<times> int \<Rightarrow> bool" where
  "in_canvas c p \<longleftrightarrow> 0 \<le> fst p \<and> fst p < width c \<and> 0 \<le> snd p \<and> snd p < height c"

text \<open>Reading a canvas as a source image: transparent black outside its bounds.\<close>

definition get :: "canvas \<Rightarrow> image" where
  "get c p = (if in_canvas c p then pix c p else transparent)"

definition blank :: "int \<Rightarrow> int \<Rightarrow> canvas" where
  "blank w h = \<lparr>width = w, height = h, pix = (\<lambda>p. transparent)\<rparr>"

text \<open>
  The drawing model of the canvas: the rendered source image \<open>A\<close> is composited with the
  current operator over every pixel of the output bitmap (there is no clipping region in
  this program).
\<close>

definition paint :: "compop \<Rightarrow> image \<Rightarrow> canvas \<Rightarrow> canvas" where
  "paint op A c = c\<lparr>pix := (\<lambda>p. if in_canvas c p then blend op (A p) (pix c p) else pix c p)\<rparr>"

text \<open>
  A CSS colour: either a literal string of the program (\<^verbatim>\<open>'white'\<close>, a hex colour of
  the state) or the text \<^verbatim>\<open>rgba(r, g, b, a)\<close> that \<^verbatim>\<open>Utils.hexToRgba\<close> builds, kept
  with its four numbers (\<open>None\<close> is NaN).
\<close>

datatype color = ColorText string | RgbaText "int option" "int option" "int option" real

datatype fill_style =
    FillColor color
  | FillGradient real real real real real real "(real \<times> color) list"
  | FillPattern canvas

datatype xform = Translate real real | Rotate real

record dstate =
  globalAlpha :: real
  globalCompositeOperation :: compop
  fillStyle :: fill_style
  transform :: "xform list"
  shadowOffsetX :: real
  shadowOffsetY :: real
  shadowColor :: color
  shadowBlur :: real

definition default_dstate :: dstate where
  "default_dstate = \<lparr>globalAlpha = 1, globalCompositeOperation = SourceOver,
     fillStyle = FillColor (ColorText ''#000000''), transform = [],
     shadowOffsetX = 0, shadowOffsetY = 0,
     shadowColor = ColorText ''rgba(0, 0, 0, 0)'', shadowBlur = 0\<rparr>"

datatype path_cmd = MoveTo real real | LineTo real real | ClosePath | Arc real real real real real

text \<open>
  A 2D rendering context together with the canvas it belongs to: the bitmap, the current
  drawing state, the stack of saved states and the current path.
\<close>

record ctx2d =
  canvas :: canvas
  cur :: dstate
  saved :: "dstate list"
  path :: "path_cmd list"

definition new_context :: "int \<Rightarrow> int \<Rightarrow> ctx2d" where
  "new_context w h = \<lparr>canvas = blank w h, cur = default_dstate, saved = [], path = []\<rparr>"

text \<open>\<^verbatim>\<open>document.createElement('canvas')\<close> with its context: 300 by 150, transparent.\<close>

definition createElement_canvas :: ctx2d where
  "createElement_canvas = new_context 300 150"

text \<open>What a drawing call renders: a rectangle, the current path, or (a slice of) an image.\<close>

datatype prim =
    PRect real real real real
  | PFill "path_cmd list"
  | PImage canvas real real real real real real real real

text \<open>
  The parts of the browser the program does not contain: the rasteriser for shapes and
  for transformed or scaled images, the shadow renderer, the colour parser, and the
  image encoder and decoder behind \<^verbatim>\<open>toDataURL\<close> and \<^verbatim>\<open>new Image()\<close>. They are
  parameters of the model.
\<close>

record platform =
  raster :: "xform list \<Rightarrow> fill_style \<Rightarrow> prim \<Rightarrow> image"
  shadow :: "dstate \<Rightarrow> image \<Rightarrow> image"
  parseColor :: "color \<Rightarrow> pixel"
  toDataURL :: "canvas \<Rightarrow> string"
  decodeImage :: "string \<Rightarrow> canvas option"

definition is_int :: "real \<Rightarrow> bool" where
  "is_int x \<longleftrightarrow> of_int \<lfloor>x\<rfloor> = x"

definition in_rect :: "int \<Rightarrow> int \<Rightarrow> int \<Rightarrow> int \<Rightarrow> int \<times> int \<Rightarrow> bool" where
  "in_rect x y w h p \<longleftrightarrow> x \<le> fst p \<and> fst p < x + w \<and> y \<le> snd p \<and> snd p < y + h"

text \<open>
  The source image \<open>A\<close> of a drawing call, before global alpha. Under the identity
  transform a pixel-aligned, unscaled image copy, a pixel-aligned pattern fill (tiled from
  the canvas origin) and a pixel-aligned colour fill are exact; everything else is the
  rasteriser's.
\<close>

definition image_A :: "platform \<Rightarrow> dstate \<Rightarrow> prim \<Rightarrow> image" where
  "image_A pf st q =
     (case q of
        PImage src sx sy sw sh dx dy dw dh \<Rightarrow>
          if transform st = [] \<and> is_int sx \<and> is_int sy \<and> is_int sw \<and> is_int sh
             \<and> is_int dx \<and> is_int dy \<and> dw = sw \<and> dh = sh \<and> 0 \<le> sw \<and> 0 \<le> sh
          then (\<lambda>p. if in_rect \<lfloor>dx\<rfloor> \<lfloor>dy\<rfloor> \<lfloor>dw\<rfloor> \<lfloor>dh\<rfloor> p
                     then get src (fst p - \<lfloor>dx\<rfloor> + \<lfloor>sx\<rfloor>, snd p - \<lfloor>dy\<rfloor> + \<lfloor>sy\<rfloor>)
                     else transparent)
          else raster pf (transform st) (fillStyle st) q
      | PRect x y w h \<Rightarrow>
          if transform st = [] \<and> is_int x \<and> is_int y \<and> is_int w \<and> is_int h \<and> 0 \<le> w \<and> 0 \<le> h
          then (case fillStyle st of
                  FillPattern img \<Rightarrow>
                    (\<lambda>p. if in_rect \<lfloor>x\<rfloor> \<lfloor>y\<rfloor> \<lfloor>w\<rfloor> \<lfloor>h\<rfloor> p
                          then get img (fst p mod width img, snd p mod height img)
                          else transparent)
                | FillColor c \<Rightarrow>
                    (\<lambda>p. if in_rect \<lfloor>x\<rfloor> \<lfloor>y\<rfloor> \<lfloor>w\<rfloor> \<lfloor>h\<rfloor> p then parseColor pf c else transparent)
                | FillGradient x0 y0 r0 x1 y1 r1 stops \<Rightarrow>
                    raster pf (transform st) (fillStyle st) q)
          else raster pf (transform st) (fillStyle st) q
      | PFill cmds \<Rightarrow> raster pf (transform st) (fillStyle st) q)"

definition shadows_drawn :: "dstate \<Rightarrow> bool" where
  "shadows_drawn st \<longleftrightarrow>
     shadowColor st \<noteq> ColorText ''rgba(0, 0, 0, 0)''
     \<and> (shadowBlur st \<noteq> 0 \<or> shadowOffsetX st \<noteq> 0 \<or> shadowOffsetY st \<noteq> 0)"

text \<open>
  One drawing call: render \<open>A\<close>, multiply it by global alpha, composite its shadow (when
  shadows are drawn) and then \<open>A\<close> itself with the current operator.
\<close>

definition draw :: "platform \<Rightarrow> prim \<Rightarrow> ctx2d \<Rightarrow> ctx2d" where
  "draw pf q ctx =
     (let st = cur ctx;
          A = (\<lambda>p. px_scale (globalAlpha st) (image_A pf st q p));
          c1 = (if shadows_drawn st
                then paint (globalCompositeOperation st) (shadow pf st A) (canvas ctx)
                else canvas ctx)
      in ctx\<lparr>canvas := paint (globalCompositeOperation st) A c1\<rparr>)"

subsection \<open>The context methods the engine calls\<close>

definition save :: "ctx2d \<Rightarrow> ctx2d" where
  "save ctx = ctx\<lparr>saved := cur ctx # saved ctx\<rparr>"

definition restore :: "ctx2d \<Rightarrow> ctx2d" where
  "restore ctx = (case saved ctx of [] \<Rightarrow> ctx | st # rest \<Rightarrow> ctx\<lparr>cur := st, saved := rest\<rparr>)"

definition translate :: "real \<Rightarrow> real \<Rightarrow> ctx2d \<Rightarrow> ctx2d" where
  "translate x y ctx = ctx\<lparr>cur := (cur ctx)\<lparr>transform := transform (cur ctx) @ [Translate x y]\<rparr>\<rparr>"

definition rotate :: "real \<Rightarrow> ctx2d \<Rightarrow> ctx2d" where
  "rotate a ctx = ctx\<lparr>cur := (cur ctx)\<lparr>transform := transform (cur ctx) @ [Rotate a]\<rparr>\<rparr>"

text \<open>Assigning \<^verbatim>\<open>globalAlpha\<close> a value outside \<open>[0, 1]\<close> is ignored by the canvas.\<close>

definition set_globalAlpha :: "real \<Rightarrow> ctx2d \<Rightarrow> ctx2d" where
  "set_globalAlpha v ctx =
     (if 0 \<le> v \<and> v \<le> 1 then ctx\<lparr>cur := (cur ctx)\<lparr>globalAlpha := v\<rparr>\<rparr> else ctx)"

definition set_globalCompositeOperation :: "compop \<Rightarrow> ctx2d \<Rightarrow> ctx2d" where
  "set_globalCompositeOperation op ctx = ctx\<lparr>cur := (cur ctx)\<lparr>globalCompositeOperation := op\<rparr>\<rparr>"

definition set_fillStyle :: "fill_style \<Rightarrow> ctx2d \<Rightarrow> ctx2d" where
  "set_fillStyle f ctx = ctx\<lparr>cur := (cur ctx)\<lparr>fillStyle := f\<rparr>\<rparr>"

definition set_shadowOffsetX :: "real \<Rightarrow> ctx2d \<Rightarrow> ctx2d" where
  "set_shadowOffsetX v ctx = ctx\<lparr>cur := (cur ctx)\<lparr>shadowOffsetX := v\<rparr>\<rparr>"

definition set_shadowOffsetY :: "real \<Rightarrow> ctx2d \<Rightarrow> ctx2d" where
  "set_shadowOffsetY v ctx = ctx\<lparr>cur := (cur ctx)\<lparr>shadowOffsetY := v\<rparr>\<rparr>"

definition set_shadowColor :: "color \<Rightarrow> ctx2d \<Rightarrow> ctx2d" where
  "set_shadowColor c ctx = ctx\<lparr>cur := (cur ctx)\<lparr>shadowColor := c\<rparr>\<rparr>"

definition set_shadowBlur :: "real \<Rightarrow> ctx2d \<Rightarrow> ctx2d" where
  "set_shadowBlur v ctx = ctx\<lparr>cur := (cur ctx)\<lparr>shadowBlur := v\<rparr>\<rparr>"

text \<open>
  Assigning \<^verbatim>\<open>canvas.width\<close> or \<^verbatim>\<open>canvas.height\<close> replaces the bitmap by a transparent
  one and resets the context to its default state.
\<close>

definition set_width :: "int \<Rightarrow> ctx2d \<Rightarrow> ctx2d" where
  "set_width w ctx = new_context w (height (canvas ctx))"

definition set_height :: "int \<Rightarrow> ctx2d \<Rightarrow> ctx2d" where
  "set_height h ctx = new_context (width (canvas ctx)) h"

text \<open>
  \<^verbatim>\<open>clearRect\<close> with integer arguments, as the engine calls it on untransformed
  contexts: the pixels of the (normalised) rectangle become transparent black, whatever
  the composite operator and global alpha are.
\<close>

definition clearRect :: "int \<Rightarrow> int \<Rightarrow> int \<Rightarrow> int \<Rightarrow> ctx2d \<Rightarrow> ctx2d" where
  "clearRect x y w h ctx =
     ctx\<lparr>canvas := (canvas ctx)\<lparr>pix :=
       (\<lambda>p. if in_rect (min x (x + w)) (min y (y + h)) \<bar>w\<bar> \<bar>h\<bar> p \<and> in_canvas (canvas ctx) p
             then transparent else pix (canvas ctx) p)\<rparr>\<rparr>"

definition fillRect :: "platform \<Rightarrow> real \<Rightarrow> real \<Rightarrow> real \<Rightarrow> real \<Rightarrow> ctx2d \<Rightarrow> ctx2d" where
  "fillRect pf x y w h ctx = draw pf (PRect x y w h) ctx"

definition beginPath :: "ctx2d \<Rightarrow> ctx2d" where
  "beginPath ctx = ctx\<lparr>path := []\<rparr>"

definition moveTo :: "real \<Rightarrow> real \<Rightarrow> ctx2d \<Rightarrow> ctx2d" where
  "moveTo x y ctx = ctx\<lparr>path := path ctx @ [MoveTo x y]\<rparr>"

definition lineTo :: "real \<Rightarrow> real \<Rightarrow> ctx2d \<Rightarrow> ctx2d" where
  "lineTo x y ctx = ctx\<lparr>path := path ctx @ [LineTo x y]\<rparr>"

definition closePath :: "ctx2d \<Rightarrow> ctx2d" where
  "closePath ctx = ctx\<lparr>path := path ctx @ [ClosePath]\<rparr>"

definition arc :: "real \<Rightarrow> real \<Rightarrow> real \<Rightarrow> real \<Rightarrow> real \<Rightarrow> ctx2d \<Rightarrow> ctx2d" where
  "arc x y r a0 a1 ctx = ctx\<lparr>path := path ctx @ [Arc x y r a0 a1]\<rparr>"

definition fill :: "platform \<Rightarrow> ctx2d \<Rightarrow> ctx2d" where
  "fill pf ctx = draw pf (PFill (path ctx)) ctx"

text \<open>
  \<^verbatim>\<open>drawImage(img, dx, dy)\<close> and the nine-argument form. A source rectangle of width or
  height zero draws nothing.
\<close>

definition drawImage9 ::
  "platform \<Rightarrow> canvas \<Rightarrow> real \<Rightarrow> real \<Rightarrow> real \<Rightarrow> real \<Rightarrow> real \<Rightarrow> real \<Rightarrow> real \<Rightarrow> real \<Rightarrow> ctx2d \<Rightarrow> ctx2d" where
  "drawImage9 pf img sx sy sw sh dx dy dw dh ctx =
     (if sw = 0 \<or> sh = 0 then ctx else draw pf (PImage img sx sy sw sh dx dy dw dh) ctx)"

definition drawImage :: "platform \<Rightarrow> canvas \<Rightarrow> real \<Rightarrow> real \<Rightarrow> ctx2d \<Rightarrow> ctx2d" where
  "drawImage pf img dx dy ctx =
     drawImage9 pf img 0 0 (of_int (width img)) (of_int (height img))
       dx dy (of_int (width img)) (of_int (height img)) ctx"

section \<open>StochasticStamp (services/utils.ts)\<close>

text \<open>
  \<^verbatim>\<open>Math.random()\<close>: the global random source is an infinite sequence of numbers, and
  each call takes the next one.
\<close>

type_synonym rand = "nat \<Rightarrow> real"

definition Math_random :: "rand \<Rightarrow> real \<times> rand" where
  "Math_random g = (g 0, (\<lambda>n. g (Suc n)))"

definition hypot :: "real \<Rightarrow> real \<Rightarrow> real" where
  "hypot a b = sqrt (a\<^sup>2 + b\<^sup>2)"

definition atan2 :: "real \<Rightarrow> real \<Rightarrow> real" where
  "atan2 y x =
     (if 0 < x then arctan (y / x)
      else if x < 0 \<and> 0 \<le> y then arctan (y / x) + pi
      else if x < 0 then arctan (y / x) - pi
      else if 0 < y then pi / 2
      else if y < 0 then - (pi / 2)
      else 0)"

text \<open>
  The singleton \<^verbatim>\<open>StochasticStamp\<close>: the stamp canvas and the tint canvas (each with its
  context, absent until first use) and the key of the cached stamp.
\<close>

record stochastic_stamp =
  offCanvas :: "ctx2d option"
  tintCanvas :: "ctx2d option"
  lastSize :: real
  lastRoughness :: real
  lastBlurWidth :: real

definition StochasticStamp_initial :: stochastic_stamp where
  "StochasticStamp_initial =
     \<lparr>offCanvas = None, tintCanvas = None, lastSize = 0, lastRoughness = -1, lastBlurWidth = -1\<rparr>"

text \<open>
  The loop \<^verbatim>\<open>for (let i = 0; i <= points; i++)\<close> of \<^verbatim>\<open>generate\<close>, with
  \<^verbatim>\<open>points = 40\<close>: every third point draws a new radius.
\<close>

function stamp_outline ::
  "real \<Rightarrow> real \<Rightarrow> real \<Rightarrow> nat \<Rightarrow> real \<Rightarrow> ctx2d \<Rightarrow> rand \<Rightarrow> ctx2d \<times> rand" where
  "stamp_outline sz roughness center i lastR ctx g =
     (if i \<le> 40 then
        let angle = (real i / 40) * pi * 2;
            lastR' = (if i mod 3 = 0 then sz + (fst (Math_random g) - 0.5) * roughness else lastR);
            g' = (if i mod 3 = 0 then snd (Math_random g) else g);
            px = center + cos angle * lastR';
            py = center + sin angle * lastR';
            ctx' = (if i = 0 then moveTo px py ctx else lineTo px py ctx)
        in stamp_outline sz roughness center (i + 1) lastR' ctx' g'
      else (ctx, g))"
  by pat_completeness auto
termination
  by (relation "measure (\<lambda>(sz, roughness, center, i, lastR, ctx, g). 41 - i)") auto

definition white_gradient :: "real \<Rightarrow> real \<Rightarrow> fill_style" where
  "white_gradient center r1 =
     FillGradient center center 0 center center r1
       [(0, ColorText ''rgba(255, 255, 255, 1)''), (1, ColorText ''rgba(255, 255, 255, 0)'')]"

text \<open>\<^verbatim>\<open>override !== null ? override : value\<close>.\<close>

definition effective :: "real option \<Rightarrow> real \<Rightarrow> real" where
  "effective override v = (case override of Some o' \<Rightarrow> o' | None \<Rightarrow> v)"

text \<open>
  The drawing part of \<^verbatim>\<open>generate\<close>, after the cache test: size and clear the stamp
  canvas \<open>off\<close>, then fill the rough outline or the circle, with the gradient or in white.
\<close>

definition stamp_drawing ::
  "platform \<Rightarrow> real \<Rightarrow> real \<Rightarrow> real \<Rightarrow> ctx2d \<Rightarrow> rand \<Rightarrow> ctx2d \<times> rand" where
  "stamp_drawing pf sz finalRoughness finalBlurWidth off g =
     (let canvasSize = \<lceil>(sz * 1.5 + sz) * 2\<rceil>;
          ctx = set_height canvasSize (set_width canvasSize off);
          center = of_int canvasSize / 2;
          ctx0 = clearRect 0 0 canvasSize canvasSize ctx
      in if 0 < finalRoughness then
           let roughness = (finalRoughness / 100) * sz * 1.5;
               outl = stamp_outline sz roughness center 0 sz (beginPath ctx0) g;
               ctx1 = closePath (fst outl);
               ctx2 = (if finalBlurWidth < 95
                       then set_fillStyle (white_gradient center (sz + roughness / 2)) ctx1
                       else set_fillStyle (FillColor (ColorText ''white'')) ctx1)
           in (fill pf ctx2, snd outl)
         else
           let ctx1 = (if finalBlurWidth < 95
                       then set_fillStyle (white_gradient center sz) ctx0
                       else set_fillStyle (FillColor (ColorText ''white'')) ctx0)
           in (fill pf (arc center center sz 0 (pi * 2) (beginPath ctx1)), g))"

definition generate ::
  "platform \<Rightarrow> real \<Rightarrow> real \<Rightarrow> real \<Rightarrow> real option \<Rightarrow> real option
     \<Rightarrow> stochastic_stamp \<times> rand \<Rightarrow> stochastic_stamp \<times> rand" where
  "generate pf sz roughnessPercent blurWidthPercent roughOverride blurOverride Sg =
     (let S = fst Sg; g = snd Sg;
          off = (case offCanvas S of None \<Rightarrow> createElement_canvas | Some c \<Rightarrow> c);
          S1 = S\<lparr>offCanvas := Some off\<rparr>;
          finalBlurWidth = effective blurOverride blurWidthPercent;
          finalRoughness = effective roughOverride roughnessPercent
      in if sz = lastSize S1 \<and> finalRoughness = lastRoughness S1 \<and> finalBlurWidth = lastBlurWidth S1
         then (S1, g)
         else
           let drawn = stamp_drawing pf sz finalRoughness finalBlurWidth off g
           in (S1\<lparr>offCanvas := Some (fst drawn), lastSize := sz,
                   lastRoughness := finalRoughness, lastBlurWidth := finalBlurWidth\<rparr>,
               snd drawn))"

text \<open>
  \<^verbatim>\<open>drawStamp\<close> works on two separate objects, and its statements on the one commute with
  those on the other. On the tint canvas (\<open>prev\<close>, absent before the first stamp): create
  or resize it to the stamp's size, clear it, fill it with the colour and keep of that
  only what the stamp mask \<open>off\<close> covers.
\<close>

definition tint_buffer :: "platform \<Rightarrow> canvas \<Rightarrow> color \<Rightarrow> ctx2d option \<Rightarrow> ctx2d" where
  "tint_buffer pf off col prev =
     (let tint0 = (case prev of None \<Rightarrow> createElement_canvas | Some t \<Rightarrow> t);
          tint1 = (if width (canvas tint0) \<noteq> width off \<or> height (canvas tint0) \<noteq> height off
                   then set_height (height off) (set_width (width off) tint0)
                   else tint0);
          tw = width (canvas tint1);
          th = height (canvas tint1);
          tint2 = clearRect 0 0 tw th tint1;
          tint3 = fillRect pf 0 0 (of_int tw) (of_int th)
                    (set_fillStyle (FillColor col) (set_globalCompositeOperation SourceOver tint2))
      in drawImage pf off 0 0 (set_globalCompositeOperation DestinationIn tint3))"

text \<open>
  On the target context: save, move to \<open>(x, y)\<close>, rotate, set the opacity, draw the tint
  canvas centred, restore.
\<close>

definition stamp_onto ::
  "platform \<Rightarrow> canvas \<Rightarrow> real \<Rightarrow> real \<Rightarrow> real \<Rightarrow> real \<Rightarrow> ctx2d \<Rightarrow> ctx2d" where
  "stamp_onto pf tint x y rot opacity ctx =
     (let ctx1 = set_globalAlpha opacity (rotate rot (translate x y (save ctx)));
          half = of_int (width tint) / 2
      in restore (drawImage pf tint (- half) (- half) ctx1))"

text \<open>
  \<^verbatim>\<open>drawStamp\<close> draws on a target context \<open>ctx\<close> and returns it with the singleton and the
  random source. The rotation is random when none is given.
\<close>

definition drawStamp ::
  "platform \<Rightarrow> ctx2d \<Rightarrow> real \<Rightarrow> real \<Rightarrow> real \<Rightarrow> color \<Rightarrow> real \<Rightarrow> real \<Rightarrow> real
     \<Rightarrow> real option \<Rightarrow> real option \<Rightarrow> real option
     \<Rightarrow> stochastic_stamp \<times> rand \<Rightarrow> ctx2d \<times> stochastic_stamp \<times> rand" where
  "drawStamp pf ctx x y sz col opacity globalRoughness globalBlurWidth roughOverride blurOverride
      rotation Sg =
     (let Sg1 = generate pf sz globalRoughness globalBlurWidth roughOverride blurOverride Sg;
          S1 = fst Sg1; g1 = snd Sg1
      in case offCanvas S1 of
           None \<Rightarrow> (ctx, S1, g1)
         | Some off \<Rightarrow>
             let tint = tint_buffer pf (canvas off) col (tintCanvas S1);
                 rot = (case rotation of Some r \<Rightarrow> r | None \<Rightarrow> fst (Math_random g1) * pi * 2);
                 g2 = (case rotation of Some r \<Rightarrow> g1 | None \<Rightarrow> snd (Math_random g1))
             in (stamp_onto pf (canvas tint) x y rot opacity ctx, S1\<lparr>tintCanvas := Some tint\<rparr>, g2))"

text \<open>
  \<^verbatim>\<open>Utils.hexToRgba\<close>: \<^verbatim>\<open>parseInt(hex.slice(i, j), 16)\<close> reads an optional sign, an
  optional \<^verbatim>\<open>0x\<close> and the longest prefix of hexadecimal digits, and is NaN when there is
  no digit.
\<close>

definition hex_digit :: "char \<Rightarrow> int option" where
  "hex_digit c =
     (let n = (of_char c :: nat)
      in if 48 \<le> n \<and> n \<le> 57 then Some (int n - 48)
         else if 97 \<le> n \<and> n \<le> 102 then Some (int n - 87)
         else if 65 \<le> n \<and> n \<le> 70 then Some (int n - 55)
         else None)"

fun hex_digits :: "string \<Rightarrow> int option \<Rightarrow> int option" where
  "hex_digits [] acc = acc"
| "hex_digits (c # cs) acc =
     (case hex_digit c of
        None \<Rightarrow> acc
      | Some d \<Rightarrow> hex_digits cs (Some ((case acc of None \<Rightarrow> 0 | Some a \<Rightarrow> a) * 16 + d)))"

definition strip_0x :: "string \<Rightarrow> string" where
  "strip_0x s = (if take 2 s = ''0x'' \<or> take 2 s = ''0X'' then drop 2 s else s)"

definition parseInt16 :: "string \<Rightarrow> int option" where
  "parseInt16 s =
     (let t = dropWhile (\<lambda>c. c \<in> {CHR '' '', CHR 0x09, CHR 0x0A, CHR 0x0B, CHR 0x0C, CHR 0x0D}) s
      in case t of
           CHR ''-'' # r \<Rightarrow> map_option uminus (hex_digits (strip_0x r) None)
         | CHR ''+'' # r \<Rightarrow> hex_digits (strip_0x r) None
         | _ \<Rightarrow> hex_digits (strip_0x t) None)"

definition slice :: "nat \<Rightarrow> nat \<Rightarrow> string \<Rightarrow> string" where
  "slice i j s = take (j - i) (drop i s)"

definition hexToRgba :: "string \<Rightarrow> real \<Rightarrow> color" where
  "hexToRgba hex a =
     RgbaText (parseInt16 (slice 1 3 hex)) (parseInt16 (slice 3 5 hex)) (parseInt16 (slice 5 7 hex)) a"

section \<open>MapEngine\<close>

text \<open>The fields of \<^verbatim>\<open>AppState\<close> (types.ts) that the engine reads.\<close>

datatype paint_mode = Terrain | River | Sea | Texture | PathMode | NoMode

datatype path_style = Dots | Dashed

record app_state =
  paintMode :: paint_mode
  terrainColor :: string
  activeTexture :: "string option"
  isTextureEraser :: bool
  selectedTexture :: string
  pathColor :: string
  pathSpacing :: real
  pathStyle :: path_style
  brushSize :: real
  brushBlur :: real
  blurWidth :: real
  roughness :: real
  isOrganicRiver :: bool

record river_state =
  currentWidthFactor :: real
  targetWidthFactor :: real
  distToNextChange :: real
  traveledSinceChange :: real
  lastX :: real
  lastY :: real

text \<open>
  The engine's fields. A layer context is \<open>None\<close> until \<^verbatim>\<open>init\<close> binds it; the two mask
  canvases are created by the constructor. (The asset cache plays no part in the
  operations modelled here.)
\<close>

record map_engine =
  mapCtx :: "ctx2d option"
  waterCtx :: "ctx2d option"
  textureLayerCtx :: "ctx2d option"
  pathCtx :: "ctx2d option"
  assetCtx :: "ctx2d option"
  textCtx :: "ctx2d option"
  maskCtx :: ctx2d
  textureMaskCtx :: ctx2d
  currentTextureImg :: "canvas option"
  pathRemainder :: real
  riverState :: river_state

definition new_MapEngine :: map_engine where
  "new_MapEngine =
     \<lparr>mapCtx = None, waterCtx = None, textureLayerCtx = None, pathCtx = None, assetCtx = None,
      textCtx = None, maskCtx = createElement_canvas, textureMaskCtx = createElement_canvas,
      currentTextureImg = None, pathRemainder = 0,
      riverState = \<lparr>currentWidthFactor = 1.0, targetWidthFactor = 1.0, distToNextChange = 0,
        traveledSinceChange = 0, lastX = 0, lastY = 0\<rparr>\<rparr>"

text \<open>
  \<^verbatim>\<open>init\<close> binds the six layer canvases (given with their contexts), sizes all eight
  canvases, which clears them, and clears three of them once more.
\<close>

definition init ::
  "int \<Rightarrow> int \<Rightarrow> ctx2d \<Rightarrow> ctx2d \<Rightarrow> ctx2d \<Rightarrow> ctx2d \<Rightarrow> ctx2d \<Rightarrow> ctx2d \<Rightarrow> map_engine \<Rightarrow> map_engine" where
  "init w h mapC waterC textureC pathC assetC textC e =
     (let sz = (\<lambda>c. set_height h (set_width w c))
      in e\<lparr>mapCtx := Some (sz mapC),
           waterCtx := Some (clearRect 0 0 w h (sz waterC)),
           textureLayerCtx := Some (clearRect 0 0 w h (sz textureC)),
           pathCtx := Some (sz pathC),
           assetCtx := Some (sz assetC),
           textCtx := Some (sz textC),
           maskCtx := sz (maskCtx e),
           textureMaskCtx := clearRect 0 0 w h (sz (textureMaskCtx e))\<rparr>)"

text \<open>
  Everything a paint call can touch: the engine, the stamp singleton and the random source.
\<close>

record world =
  engine :: map_engine
  stamp :: stochastic_stamp
  rng :: rand

text \<open>JavaScript truthiness of a \<^verbatim>\<open>string | null\<close>.\<close>

definition truthy :: "string option \<Rightarrow> bool" where
  "truthy s \<longleftrightarrow> (case s of None \<Rightarrow> False | Some t \<Rightarrow> t \<noteq> [])"

subsection \<open>renderTextureLayer\<close>

text \<open>\<^verbatim>\<open>createPattern\<close> gives null for an image without pixels.\<close>

definition createPattern :: "canvas \<Rightarrow> fill_style option" where
  "createPattern img = (if width img \<le> 0 \<or> height img \<le> 0 then None else Some (FillPattern img))"

text \<open>
  The rectangle \<open>(drawX, drawY, drawW, drawH)\<close> that \<^verbatim>\<open>renderTextureLayer\<close> works on for a
  canvas of \<open>w\<close> by \<open>h\<close> pixels; \<open>None\<close> is the early return for a dirty box that is
  completely off screen.
\<close>

definition dirty_rect ::
  "int \<Rightarrow> int \<Rightarrow> real option \<Rightarrow> real option \<Rightarrow> real option \<Rightarrow> (int \<times> int \<times> int \<times> int) option" where
  "dirty_rect w h dirtyX dirtyY dirtyR =
     (case (dirtyX, dirtyY, dirtyR) of
        (Some dX, Some dY, Some r) \<Rightarrow>
          let left = \<lfloor>dX - r\<rfloor>;
              top = \<lfloor>dY - r\<rfloor>;
              sz = \<lceil>r * 2\<rceil>;
              startX = max 0 left;
              startY = max 0 top;
              endX = min w (left + sz);
              endY = min h (top + sz)
          in if endX \<le> startX \<or> endY \<le> startY then None
             else Some (startX, startY, endX - startX, endY - startY)
      | _ \<Rightarrow> Some (0, 0, w, h))"

definition renderTextureLayer ::
  "platform \<Rightarrow> real option \<Rightarrow> real option \<Rightarrow> real option \<Rightarrow> map_engine \<Rightarrow> map_engine" where
  "renderTextureLayer pf dirtyX dirtyY dirtyR e =
     (case textureLayerCtx e of
        None \<Rightarrow> e
      | Some ctx \<Rightarrow>
         (case currentTextureImg e of
            None \<Rightarrow>
              (case (dirtyX, dirtyY, dirtyR) of
                 (Some dX, Some dY, Some r) \<Rightarrow>
                   e\<lparr>textureLayerCtx := Some (clearRect \<lfloor>dX - r\<rfloor> \<lfloor>dY - r\<rfloor> \<lceil>r * 2\<rceil> \<lceil>r * 2\<rceil> ctx)\<rparr>
               | _ \<Rightarrow>
                   e\<lparr>textureLayerCtx :=
                       Some (clearRect 0 0 (width (canvas ctx)) (height (canvas ctx)) ctx)\<rparr>)
          | Some img \<Rightarrow>
              (case dirty_rect (width (canvas ctx)) (height (canvas ctx)) dirtyX dirtyY dirtyR of
                 None \<Rightarrow> e
               | Some (drawX, drawY, drawW, drawH) \<Rightarrow>
                   let ctx1 = clearRect drawX drawY drawW drawH (save ctx);
                       ctx2 = (case createPattern img of
                                 Some pattern \<Rightarrow>
                                   fillRect pf (of_int drawX) (of_int drawY) (of_int drawW) (of_int drawH)
                                     (set_fillStyle pattern ctx1)
                               | None \<Rightarrow> ctx1);
                       ctx3 = drawImage9 pf (canvas (textureMaskCtx e))
                                (of_int drawX) (of_int drawY) (of_int drawW) (of_int drawH)
                                (of_int drawX) (of_int drawY) (of_int drawW) (of_int drawH)
                                (set_globalCompositeOperation DestinationIn ctx2);
                       ctx4 = drawImage9 pf (canvas (maskCtx e))
                                (of_int drawX) (of_int drawY) (of_int drawW) (of_int drawH)
                                (of_int drawX) (of_int drawY) (of_int drawW) (of_int drawH)
                                (set_globalCompositeOperation DestinationIn ctx3)
                   in e\<lparr>textureLayerCtx := Some (restore ctx4)\<rparr>)))"

subsection \<open>applyPaint\<close>

definition drawToMask ::
  "platform \<Rightarrow> real \<Rightarrow> real \<Rightarrow> real \<Rightarrow> app_state \<Rightarrow> real \<Rightarrow> world \<Rightarrow> world" where
  "drawToMask pf x y radius state rotation w =
     (let r = drawStamp pf (maskCtx (engine w)) x y radius (ColorText ''black'') 1
                (roughness state) (blurWidth state) None (Some 95) (Some rotation) (stamp w, rng w)
      in w\<lparr>engine := (engine w)\<lparr>maskCtx := fst r\<rparr>, stamp := fst (snd r), rng := snd (snd r)\<rparr>)"

definition eraseFromMask ::
  "platform \<Rightarrow> real \<Rightarrow> real \<Rightarrow> real \<Rightarrow> app_state \<Rightarrow> real \<Rightarrow> world \<Rightarrow> world" where
  "eraseFromMask pf x y radius state rotation w =
     (let m = set_globalCompositeOperation DestinationOut (save (maskCtx (engine w)));
          r = drawStamp pf m x y radius (ColorText ''black'') 1
                (roughness state) (blurWidth state) None (Some 100) (Some rotation) (stamp w, rng w)
      in w\<lparr>engine := (engine w)\<lparr>maskCtx := restore (fst r)\<rparr>,
           stamp := fst (snd r), rng := snd (snd r)\<rparr>)"

text \<open>
  The organic-river block of \<^verbatim>\<open>applyPaint\<close>: the river state after the dab at \<open>(x, y)\<close>,
  with the random source.
\<close>

definition organic_river :: "real \<Rightarrow> real \<Rightarrow> river_state \<times> rand \<Rightarrow> river_state \<times> rand" where
  "organic_river x y rg =
     (let rs = fst rg; g = snd rg;
          dist = hypot (x - lastX rs) (y - lastY rs);
          rs1 = rs\<lparr>traveledSinceChange := traveledSinceChange rs + dist\<rparr>;
          rs2 = (if distToNextChange rs1 \<le> traveledSinceChange rs1
                 then rs1\<lparr>targetWidthFactor := 0.6 + fst (Math_random g) * 0.5,
                         distToNextChange := 20 + fst (Math_random (snd (Math_random g))) * 40,
                         traveledSinceChange := 0\<rparr>
                 else rs1);
          g2 = (if distToNextChange rs1 \<le> traveledSinceChange rs1
                then snd (Math_random (snd (Math_random g))) else g)
      in (rs2\<lparr>currentWidthFactor :=
                currentWidthFactor rs2 + (targetWidthFactor rs2 - currentWidthFactor rs2) * 0.15\<rparr>,
          g2))"

text \<open>\<^verbatim>\<open>this.renderTextureLayer(x, y, r)\<close> called from \<^verbatim>\<open>applyPaint\<close>.\<close>

definition render_in :: "platform \<Rightarrow> real \<Rightarrow> real \<Rightarrow> real \<Rightarrow> world \<Rightarrow> world" where
  "render_in pf x y r w = w\<lparr>engine := renderTextureLayer pf (Some x) (Some y) (Some r) (engine w)\<rparr>"

definition applyPaint :: "platform \<Rightarrow> real \<Rightarrow> real \<Rightarrow> app_state \<Rightarrow> world \<Rightarrow> world" where
  "applyPaint pf x y state w =
     (case mapCtx (engine w) of
        None \<Rightarrow> w
      | Some m \<Rightarrow>
          let opacity = brushBlur state / 100;
              radius = brushSize state;
              updateRad = radius * 3;
              w' =
               (case paintMode state of
                  Terrain \<Rightarrow>
                    let syncRotation = fst (Math_random (rng w)) * pi * 2;
                        w1 = drawToMask pf x y radius state syncRotation
                               (w\<lparr>rng := snd (Math_random (rng w))\<rparr>);
                        d = drawStamp pf m x y radius (ColorText (terrainColor state))
                              opacity (roughness state) (blurWidth state) None (Some 95)
                              (Some syncRotation) (stamp w1, rng w1);
                        w2 = w1\<lparr>engine := (engine w1)\<lparr>mapCtx := Some (fst d)\<rparr>,
                                stamp := fst (snd d), rng := snd (snd d)\<rparr>
                    in render_in pf x y updateRad w2
                | River \<Rightarrow>
                    let rg = (if isOrganicRiver state
                              then organic_river x y (riverState (engine w), rng w)
                              else (riverState (engine w), rng w));
                        fr = (if isOrganicRiver state
                              then radius * currentWidthFactor (fst rg) else radius);
                        w0 = w\<lparr>engine := (engine w)\<lparr>riverState := fst rg\<rparr>, rng := snd rg\<rparr>;
                        syncRotation = fst (Math_random (rng w0)) * pi * 2;
                        w1 = eraseFromMask pf x y fr state syncRotation
                               (w0\<lparr>rng := snd (Math_random (rng w0))\<rparr>);
                        d = drawStamp pf (set_globalCompositeOperation DestinationOut (save m))
                              x y fr (ColorText ''black'') 1.0 (roughness state)
                              (blurWidth state) None (Some 100) (Some syncRotation)
                              (stamp w1, rng w1);
                        w2 = w1\<lparr>engine := (engine w1)\<lparr>mapCtx := Some (restore (fst d))\<rparr>,
                                stamp := fst (snd d), rng := snd (snd d)\<rparr>
                    in render_in pf x y (fr * 3) w2
                | Texture \<Rightarrow>
                    if truthy (activeTexture state) then
                      let t = set_globalCompositeOperation
                                (if isTextureEraser state then DestinationOut else SourceOver)
                                (save (textureMaskCtx (engine w)));
                          d = drawStamp pf t x y radius (ColorText ''white'') opacity
                                (roughness state) (blurWidth state) (Some 0) (Some (blurWidth state))
                                None (stamp w, rng w);
                          w1 = w\<lparr>engine := (engine w)\<lparr>textureMaskCtx := restore (fst d)\<rparr>,
                                 stamp := fst (snd d), rng := snd (snd d)\<rparr>
                      in render_in pf x y updateRad w1
                    else
                      let d = drawStamp pf (set_globalCompositeOperation SourceAtop (save m))
                                x y radius (ColorText (selectedTexture state)) opacity
                                (roughness state) (blurWidth state) (Some 0)
                                (Some (blurWidth state)) None (stamp w, rng w)
                      in w\<lparr>engine := (engine w)\<lparr>mapCtx := Some (restore (fst d))\<rparr>,
                           stamp := fst (snd d), rng := snd (snd d)\<rparr>
                | _ \<Rightarrow> w)
          in w'\<lparr>engine := (engine w')\<lparr>riverState := (riverState (engine w'))\<lparr>lastX := x, lastY := y\<rparr>\<rparr>\<rparr>)"

subsection \<open>drawPathSegment\<close>

text \<open>One mark of the path at \<open>(tx, ty)\<close>: the body of the loop.\<close>

definition draw_mark :: "platform \<Rightarrow> app_state \<Rightarrow> real \<Rightarrow> real \<Rightarrow> real \<Rightarrow> ctx2d \<Rightarrow> ctx2d" where
  "draw_mark pf state angle tx ty ctx =
     (if pathStyle state = Dashed then
        let c = rotate angle (translate tx ty (save ctx));
            len = brushSize state;
            thickness = brushSize state / 2.5
        in restore (fillRect pf (- len / 2) (- thickness / 2) len thickness c)
      else fill pf (arc tx ty (brushSize state / 2) 0 (pi * 2) (beginPath ctx)))"

text \<open>
  The loop \<^verbatim>\<open>while (currentDist <= dist)\<close>. Nothing in the loop itself makes it stop, so
  it is a partial function: \<open>None\<close> stands for a loop that never ends. Next to the final
  distance and the context, the loop returns the centres of the marks it has placed, in
  drawing order.
\<close>

partial_function (option) path_loop ::
  "platform \<Rightarrow> app_state \<Rightarrow> real \<Rightarrow> real \<Rightarrow> real \<Rightarrow> real \<Rightarrow> real \<Rightarrow> real \<Rightarrow> real
     \<Rightarrow> real \<Rightarrow> ctx2d \<Rightarrow> (real \<times> real) list \<Rightarrow> (real \<times> ctx2d \<times> (real \<times> real) list) option" where
  "path_loop pf state x1 y1 nx ny angle spacing dist' currentDist ctx marks =
     (if currentDist \<le> dist' then
        path_loop pf state x1 y1 nx ny angle spacing dist' (currentDist + spacing)
          (draw_mark pf state angle (x1 + nx * currentDist) (y1 + ny * currentDist) ctx)
          (marks @ [(x1 + nx * currentDist, y1 + ny * currentDist)])
      else Some (currentDist, ctx, marks))"

text \<open>
  \<^verbatim>\<open>drawPathSegment\<close> returns the engine and the centres of the marks placed by this call.
\<close>

definition drawPathSegment ::
  "platform \<Rightarrow> real \<Rightarrow> real \<Rightarrow> real \<Rightarrow> real \<Rightarrow> app_state \<Rightarrow> map_engine
     \<Rightarrow> (map_engine \<times> (real \<times> real) list) option" where
  "drawPathSegment pf x1 y1 x2 y2 state e =
     (case pathCtx e of
        None \<Rightarrow> Some (e, [])
      | Some ctx \<Rightarrow>
          let dx = x2 - x1;
              dy = y2 - y1;
              dist = hypot dx dy;
              spacing = max 1 (brushSize state * pathSpacing state)
          in if dist < 0.5 then Some (e, [])
             else
               let ctx1 = set_globalAlpha (brushBlur state / 100)
                            (set_fillStyle (FillColor (ColorText (pathColor state))) ctx);
                   nx = dx / dist;
                   ny = dy / dist;
                   angle = atan2 dy dx
               in (case path_loop pf state x1 y1 nx ny angle spacing dist (pathRemainder e) ctx1 [] of
                     None \<Rightarrow> None
                   | Some r \<Rightarrow>
                       Some (e\<lparr>pathCtx := Some (fst (snd r)), pathRemainder := fst r - dist\<rparr>,
                             snd (snd r))))"

subsection \<open>updateShallowWater\<close>

definition updateShallowWater :: "platform \<Rightarrow> string \<Rightarrow> bool \<Rightarrow> map_engine \<Rightarrow> map_engine" where
  "updateShallowWater pf shallowColor isEnabled e =
     (case waterCtx e of
        None \<Rightarrow> e
      | Some wc \<Rightarrow>
          let w = width (canvas wc);
              h = height (canvas wc);
              c0 = clearRect 0 0 w h wc
          in if \<not> isEnabled then e\<lparr>waterCtx := Some c0\<rparr>
             else
               let OFFSET = 20000;
                   c1 = set_shadowOffsetY 0 (set_shadowOffsetX OFFSET (save c0));
                   c2 = set_shadowBlur 35 (set_shadowColor (hexToRgba shallowColor 1.0) c1);
                   c3 = drawImage pf (canvas (maskCtx e)) (- OFFSET) 0 c2;
                   c4 = drawImage pf (canvas (maskCtx e)) (- OFFSET) 0 c3;
                   c5 = drawImage pf (canvas (maskCtx e)) (- OFFSET) 0 c4;
                   c6 = set_shadowBlur 80 (set_shadowColor (hexToRgba shallowColor 0.4) c5);
                   c7 = drawImage pf (canvas (maskCtx e)) (- OFFSET) 0 c6
               in e\<lparr>waterCtx := Some (restore c7)\<rparr>)"

subsection \<open>Snapshots\<close>

datatype js_error = TypeError

record snapshot =
  map_blob :: string
  mask_blob :: string
  textureMask_blob :: "string option"
  path_blob :: string

text \<open>
  \<^verbatim>\<open>getSnapshot\<close> is null before \<^verbatim>\<open>init\<close>; \<^verbatim>\<open>this.pathCtx!.canvas\<close> on a missing path
  context is a TypeError.
\<close>

definition getSnapshot :: "platform \<Rightarrow> map_engine \<Rightarrow> js_error + snapshot option" where
  "getSnapshot pf e =
     (case mapCtx e of
        None \<Rightarrow> Inr None
      | Some m \<Rightarrow>
          (case pathCtx e of
             None \<Rightarrow> Inl TypeError
           | Some p \<Rightarrow>
               Inr (Some \<lparr>map_blob = toDataURL pf (canvas m),
                          mask_blob = toDataURL pf (canvas (maskCtx e)),
                          textureMask_blob = Some (toDataURL pf (canvas (textureMaskCtx e))),
                          path_blob = toDataURL pf (canvas p)\<rparr>)))"

text \<open>
  \<^verbatim>\<open>loadSnapshot\<close> starts one image load per layer; each \<^verbatim>\<open>onload\<close> handler runs later,
  once its blob has decoded. A pending load records the layer, the blob and the \<open>w\<close>, \<open>h\<close>
  of the call.
\<close>

datatype layer = MapLayer | PathLayer | MaskLayer | TextureMaskLayer

datatype pending_load = PendingLoad layer string int int

text \<open>The body of \<^verbatim>\<open>img.onload\<close> in \<^verbatim>\<open>loadLayer\<close>, before the callback.\<close>

definition loadLayer_draw :: "platform \<Rightarrow> canvas \<Rightarrow> int \<Rightarrow> int \<Rightarrow> ctx2d \<Rightarrow> ctx2d" where
  "loadLayer_draw pf img w h ctx = drawImage pf img 0 0 (clearRect 0 0 w h ctx)"

definition onload :: "platform \<Rightarrow> pending_load \<Rightarrow> map_engine \<Rightarrow> map_engine" where
  "onload pf t e =
     (case t of PendingLoad l src w h \<Rightarrow>
        (case decodeImage pf src of
           None \<Rightarrow> e
         | Some img \<Rightarrow>
             (case l of
                MapLayer \<Rightarrow>
                  (case mapCtx e of None \<Rightarrow> e
                   | Some c \<Rightarrow> e\<lparr>mapCtx := Some (loadLayer_draw pf img w h c)\<rparr>)
              | PathLayer \<Rightarrow>
                  (case pathCtx e of None \<Rightarrow> e
                   | Some c \<Rightarrow> e\<lparr>pathCtx := Some (loadLayer_draw pf img w h c)\<rparr>)
              | MaskLayer \<Rightarrow>
                  renderTextureLayer pf None None None
                    (e\<lparr>maskCtx := loadLayer_draw pf img w h (maskCtx e)\<rparr>)
              | TextureMaskLayer \<Rightarrow>
                  renderTextureLayer pf None None None
                    (e\<lparr>textureMaskCtx := loadLayer_draw pf img w h (textureMaskCtx e)\<rparr>))))"

definition loadSnapshot ::
  "snapshot \<Rightarrow> int \<Rightarrow> int \<Rightarrow> map_engine \<Rightarrow> map_engine \<times> pending_load list" where
  "loadSnapshot snap w h e =
     (let p1 = (if mapCtx e \<noteq> None then [PendingLoad MapLayer (map_blob snap) w h] else []);
          p2 = (if pathCtx e \<noteq> None then [PendingLoad PathLayer (path_blob snap) w h] else []);
          p3 = [PendingLoad MaskLayer (mask_blob snap) w h]
      in if truthy (textureMask_blob snap)
         then (e, p1 @ p2 @ p3 @ [PendingLoad TextureMaskLayer (the (textureMask_blob snap)) w h])
         else (e\<lparr>textureMaskCtx := clearRect 0 0 w h (textureMaskCtx e)\<rparr>, p1 @ p2 @ p3))"

section \<open>Example inputs\<close>

text \<open>
  A platform, the application's initial state and two worlds (one straight from the
  constructors, one after \<^verbatim>\<open>init\<close> with a 720 by 360 map) on which the statements
  below are exercised.
\<close>

definition demo_platform :: platform where
  "demo_platform =
     \<lparr>raster = (\<lambda>tr fs q p. Pixel 1 1 1 1), shadow = (\<lambda>st A. A),
      parseColor = (\<lambda>c. Pixel 0 0 0 1), toDataURL = (\<lambda>c. []), decodeImage = (\<lambda>s. None)\<rparr>"

definition demo_state :: app_state where
  "demo_state =
     \<lparr>paintMode = Terrain, terrainColor = ''#edc9af'', activeTexture = None,
      isTextureEraser = False, selectedTexture = ''#2d5a27'', pathColor = ''#ffffff'',
      pathSpacing = 2.5, pathStyle = Dots, brushSize = 15, brushBlur = 100, blurWidth = 50,
      roughness = 40, isOrganicRiver = False\<rparr>"

definition fresh_world :: world where
  "fresh_world = \<lparr>engine = new_MapEngine, stamp = StochasticStamp_initial, rng = (\<lambda>n. 1 / 2)\<rparr>"

definition demo_world :: world where
  "demo_world =
     \<lparr>engine = init 720 360 createElement_canvas createElement_canvas createElement_canvas
                 createElement_canvas createElement_canvas createElement_canvas new_MapEngine,
      stamp = StochasticStamp_initial, rng = (\<lambda>n. 1 / 2)\<rparr>"

text \<open>An initialised world in the middle of a river stroke.\<close>

definition river_world :: world where
  "river_world =
     demo_world\<lparr>engine := (engine demo_world)\<lparr>riverState :=
       \<lparr>currentWidthFactor = 1, targetWidthFactor = 0.8, distToNextChange = 50,
        traveledSinceChange = 0, lastX = 0, lastY = 0\<rparr>\<rparr>\<rparr>"

text \<open>
  A dirty square \<open>(x, y, r)\<close> covers a canvas when the box that \<^verbatim>\<open>renderTextureLayer\<close>
  computes from it, from \<open>\<lfloor>x - r\<rfloor>\<close> and \<open>\<lfloor>y - r\<rfloor>\<close> with side \<open>\<lceil>r * 2\<rceil>\<close>, contains
  every pixel of the canvas.
\<close>

definition covers_canvas :: "real \<Rightarrow> real \<Rightarrow> real \<Rightarrow> canvas \<Rightarrow> bool" where
  "covers_canvas x y r c \<longleftrightarrow>
     \<lfloor>x - r\<rfloor> \<le> 0 \<and> \<lfloor>y - r\<rfloor> \<le> 0
     \<and> width c \<le> \<lfloor>x - r\<rfloor> + \<lceil>r * 2\<rceil> \<and> height c \<le> \<lfloor>y - r\<rfloor> + \<lceil>r * 2\<rceil>"

text \<open>
  An initialised engine with a 2 by 2 texture image, a fully opaque land mask and a half
  transparent texture mask; the same engine without a texture image.
\<close>

definition demo_tile :: canvas where
  "demo_tile = \<lparr>width = 2, height = 2, pix = (\<lambda>p. Pixel 0 (1 / 2) 0 1)\<rparr>"

definition demo_texture_ctx :: ctx2d where
  "demo_texture_ctx = clearRect 0 0 720 360 (new_context 720 360)"

definition untextured_engine :: map_engine where
  "untextured_engine =
     (engine demo_world)
       \<lparr>maskCtx := (new_context 720 360)
          \<lparr>canvas := \<lparr>width = 720, height = 360, pix = (\<lambda>p. Pixel 1 1 1 1)\<rparr>\<rparr>,
        textureMaskCtx := (new_context 720 360)
          \<lparr>canvas := \<lparr>width = 720, height = 360, pix = (\<lambda>p. Pixel (1 / 2) (1 / 2) (1 / 2) (1 / 2))\<rparr>\<rparr>\<rparr>"

definition textured_engine :: map_engine where
  "textured_engine = untextured_engine\<lparr>currentTextureImg := Some demo_tile\<rparr>"

text \<open>
  A 2 by 2 map on a platform whose rasteriser puts every shape on pixel \<open>(0, 0)\<close>, in
  opaque white, and whose image codec is lossless on the canvases that occur below: the
  engine after \<^verbatim>\<open>init\<close>, and after one path segment drawn at brush opacity 50.
\<close>

definition dot_canvas :: canvas where
  "dot_canvas = \<lparr>width = 2, height = 2,
     pix = (\<lambda>p. if p = (0, 0) then Pixel (1 / 2) (1 / 2) (1 / 2) (1 / 2) else transparent)\<rparr>"

definition snap_platform :: platform where
  "snap_platform =
     \<lparr>raster = (\<lambda>tr fs q p. if p = (0, 0) then Pixel 1 1 1 1 else transparent),
      shadow = (\<lambda>st A. A),
      parseColor = (\<lambda>c. Pixel 1 1 1 1),
      toDataURL = (\<lambda>c. if pa (get c (0, 0)) = 0 then ''blank'' else ''dot''),
      decodeImage = (\<lambda>s. if s = ''dot'' then Some dot_canvas
                          else if s = ''blank'' then Some (blank 2 2) else None)\<rparr>"

definition small_engine :: map_engine where
  "small_engine = init 2 2 createElement_canvas createElement_canvas createElement_canvas
                    createElement_canvas createElement_canvas createElement_canvas new_MapEngine"

definition path_drawn_engine :: map_engine where
  "path_drawn_engine =
     (case drawPathSegment snap_platform 0 0 1 0 (demo_state\<lparr>brushBlur := 50\<rparr>) small_engine of
        None \<Rightarrow> small_engine | Some r \<Rightarrow> fst r)"

text \<open>
  A context in the state the stamp's tint canvas is always in: no transform, global alpha
  1, no shadow.
\<close>

definition plain :: "ctx2d \<Rightarrow> bool" where
  "plain c \<longleftrightarrow> transform (cur c) = [] \<and> globalAlpha (cur c) = 1 \<and> \<not> shadows_drawn (cur c)"


text \<open>
  The source image of the stamp that \<^verbatim>\<open>drawStamp\<close> puts on a target in drawing state \<open>st\<close>:
  the rasterised tint canvas under the target's transform followed by the translation
  and the rotation, times the opacity (or times the target's global alpha, when the
  opacity is not in \<open>[0, 1]\<close> and the assignment is ignored).
\<close>

definition stamp_image :: "platform \<Rightarrow> dstate \<Rightarrow> canvas \<Rightarrow> real \<Rightarrow> real \<Rightarrow> real \<Rightarrow> real \<Rightarrow> image" where
  "stamp_image pf st tint x y rot opacity =
     (\<lambda>p. px_scale (if 0 \<le> opacity \<and> opacity \<le> 1 then opacity else globalAlpha st)
            (raster pf (transform st @ [Translate x y, Rotate rot]) (fillStyle st)
               (PImage tint 0 0 (of_int (width tint)) (of_int (height tint))
                  (- (of_int (width tint) / 2)) (- (of_int (width tint) / 2))
                  (of_int (width tint)) (of_int (height tint))) p))"

text \<open>
  A rasteriser that never produces a negative alpha, and a mask context as the engine
  keeps it: no shadow, source-over, a global alpha that is not negative, and every alpha
  of the mask in \<open>[0, 1]\<close>.
\<close>

definition raster_alpha_nonneg :: "platform \<Rightarrow> bool" where
  "raster_alpha_nonneg pf \<longleftrightarrow> (\<forall>tr fs q p. 0 \<le> pa (raster pf tr fs q p))"

definition mask_ready :: "ctx2d \<Rightarrow> bool" where
  "mask_ready c \<longleftrightarrow>
     \<not> shadows_drawn (cur c) \<and> globalCompositeOperation (cur c) = SourceOver
     \<and> 0 \<le> globalAlpha (cur c)
     \<and> (\<forall>p. 0 \<le> pa (pix (canvas c) p) \<and> pa (pix (canvas c) p) \<le> 1)"

text \<open>
  A layer context on which \<^verbatim>\<open>loadLayer\<close> can put an image back pixel by pixel: no
  transform, source-over, no shadow, and a canvas with pixels that the \<open>w\<close> by \<open>h\<close> of
  \<^verbatim>\<open>loadSnapshot\<close> covers. An image codec is lossless on a canvas when the canvas's data
  URL decodes to an image of the same size with the same pixels.
\<close>

definition restorable :: "ctx2d \<Rightarrow> int \<Rightarrow> int \<Rightarrow> bool" where
  "restorable c w h \<longleftrightarrow>
     transform (cur c) = [] \<and> globalCompositeOperation (cur c) = SourceOver
     \<and> \<not> shadows_drawn (cur c)
     \<and> 0 < width (canvas c) \<and> 0 < height (canvas c)
     \<and> width (canvas c) \<le> w \<and> height (canvas c) \<le> h"

definition lossless :: "platform \<Rightarrow> canvas \<Rightarrow> bool" where
  "lossless pf c \<longleftrightarrow>
     (\<exists>img. decodeImage pf (toDataURL pf c) = Some img
        \<and> width img = width c \<and> height img = height c \<and> (\<forall>p. get img p = get c p))"

section \<open>Frame lemmas\<close>

lemma hypot_axis: "hypot a 0 = \<bar>a\<bar>"
  by (simp add: hypot_def)

lemma px_simps:
  "px_scale 1 p = p" "px_add p (px_scale k transparent) = p" "px_add p transparent = p"
  "px_scale k transparent = transparent"
  "pa (px_scale k p) = k * pa p"
  by (simp_all add: px_scale_def px_add_def transparent_def)

lemma is_int_of_int: "is_int (of_int n)"
  by (simp add: is_int_def)

lemma renderTextureLayer_frame:
  "maskCtx (renderTextureLayer pf a b c e) = maskCtx e"
  "textureMaskCtx (renderTextureLayer pf a b c e) = textureMaskCtx e"
  "mapCtx (renderTextureLayer pf a b c e) = mapCtx e"
  "pathCtx (renderTextureLayer pf a b c e) = pathCtx e"
  "waterCtx (renderTextureLayer pf a b c e) = waterCtx e"
  "riverState (renderTextureLayer pf a b c e) = riverState e"
  "pathRemainder (renderTextureLayer pf a b c e) = pathRemainder e"
  "currentTextureImg (renderTextureLayer pf a b c e) = currentTextureImg e"
  by (simp_all add: renderTextureLayer_def Let_def split: option.splits prod.splits)

lemma render_in_frame:
  "maskCtx (engine (render_in pf x y r w)) = maskCtx (engine w)"
  "textureMaskCtx (engine (render_in pf x y r w)) = textureMaskCtx (engine w)"
  "mapCtx (engine (render_in pf x y r w)) = mapCtx (engine w)"
  "riverState (engine (render_in pf x y r w)) = riverState (engine w)"
  "stamp (render_in pf x y r w) = stamp w"
  "rng (render_in pf x y r w) = rng w"
  by (simp_all add: render_in_def renderTextureLayer_frame)

lemma eraseFromMask_frame:
  "riverState (engine (eraseFromMask pf x y r st rot w)) = riverState (engine w)"
  "mapCtx (engine (eraseFromMask pf x y r st rot w)) = mapCtx (engine w)"
  "textureMaskCtx (engine (eraseFromMask pf x y r st rot w)) = textureMaskCtx (engine w)"
  by (simp_all add: eraseFromMask_def Let_def)

lemma drawToMask_frame:
  "riverState (engine (drawToMask pf x y r st rot w)) = riverState (engine w)"
  "mapCtx (engine (drawToMask pf x y r st rot w)) = mapCtx (engine w)"
  "textureMaskCtx (engine (drawToMask pf x y r st rot w)) = textureMaskCtx (engine w)"
  by (simp_all add: drawToMask_def Let_def)

lemma demo_world_initialised:
  "mapCtx (engine demo_world) = Some (new_context 720 360)"
  "pathCtx (engine demo_world) = Some (new_context 720 360)"
  by (simp_all add: demo_world_def init_def set_width_def set_height_def new_context_def blank_def)

section \<open>Calls before initialisation\<close>

text \<open>
  Claim C8. While \<^verbatim>\<open>init\<close> has not bound the layer contexts, \<^verbatim>\<open>applyPaint\<close>,
  \<^verbatim>\<open>drawPathSegment\<close> and \<^verbatim>\<open>updateShallowWater\<close> return normally and leave everything as
  it was: no layer, no engine field (in particular not \<^verbatim>\<open>riverState.lastX\<close>,
  \<^verbatim>\<open>riverState.lastY\<close> or \<^verbatim>\<open>pathRemainder\<close>), not the stamp cache and not the random
  source changes, and no mark is placed; \<^verbatim>\<open>getSnapshot\<close> returns null.
\<close>

theorem uninitialised_calls_are_noops:
  assumes "mapCtx (engine w) = None" and "pathCtx (engine w) = None"
    and "waterCtx (engine w) = None"
  shows "applyPaint pf x y state w = w
       \<and> drawPathSegment pf x1 y1 x2 y2 state (engine w) = Some (engine w, [])
       \<and> updateShallowWater pf shallowColor isEnabled (engine w) = engine w
       \<and> getSnapshot pf (engine w) = Inr None"
  using assms
  by (simp add: applyPaint_def drawPathSegment_def updateShallowWater_def getSnapshot_def)

theorem uninitialised_calls_are_noops_witness:
  "mapCtx (engine fresh_world) = None \<and> pathCtx (engine fresh_world) = None
   \<and> waterCtx (engine fresh_world) = None
   \<and> applyPaint demo_platform 10 20 demo_state fresh_world = fresh_world
   \<and> drawPathSegment demo_platform 0 0 100 0 demo_state (engine fresh_world)
        = Some (engine fresh_world, [])
   \<and> updateShallowWater demo_platform ''#38bdf8'' True (engine fresh_world) = engine fresh_world
   \<and> getSnapshot demo_platform (engine fresh_world) = Inr None"
proof -
  have h: "mapCtx (engine fresh_world) = None" "pathCtx (engine fresh_world) = None"
    "waterCtx (engine fresh_world) = None"
    by (simp_all add: fresh_world_def new_MapEngine_def)
  show ?thesis
    using h uninitialised_calls_are_noops [OF h, where pf = demo_platform and x = 10 and y = 20
      and state = demo_state and ?x1.0 = 0 and ?y1.0 = 0 and ?x2.0 = 100 and ?y2.0 = 0
      and shallowColor = "''#38bdf8''" and isEnabled = True]
    by simp
qed

section \<open>River width smoothing\<close>

lemma applyPaint_river_state:
  assumes "mapCtx (engine w) = Some m" and "paintMode state = River" and "isOrganicRiver state"
  shows "riverState (engine (applyPaint pf x y state w)) =
           (fst (organic_river x y (riverState (engine w), rng w)))\<lparr>lastX := x, lastY := y\<rparr>"
  using assms
  by (simp add: applyPaint_def Let_def render_in_frame eraseFromMask_frame)

lemma organic_river_current:
  "currentWidthFactor (fst (organic_river x y (rs, g))) =
     currentWidthFactor rs
       + 0.15 * (targetWidthFactor (fst (organic_river x y (rs, g))) - currentWidthFactor rs)"
  by (simp add: organic_river_def Let_def)

lemma organic_river_target_fixed:
  "traveledSinceChange rs + hypot (x - lastX rs) (y - lastY rs) < distToNextChange rs \<Longrightarrow>
     targetWidthFactor (fst (organic_river x y (rs, g))) = targetWidthFactor rs"
  by (simp add: organic_river_def Let_def)

lemma blend_step:
  fixes c c' t :: real
  assumes "c' = c + 0.15 * (t - c)"
  shows "t - c' = (1 - 0.15) * (t - c)"
    and "\<bar>t - c'\<bar> = (1 - 0.15) * \<bar>t - c\<bar>"
    and "min c t \<le> c'" and "c' \<le> max c t"
proof -
  show d: "t - c' = (1 - 0.15) * (t - c)" unfolding assms by (simp add: field_simps)
  have "\<bar>t - c'\<bar> = \<bar>(1 - 0.15) * (t - c)\<bar>" by (simp only: d)
  also have "\<dots> = (1 - 0.15) * \<bar>t - c\<bar>" by (simp only: abs_mult) simp
  finally show "\<bar>t - c'\<bar> = (1 - 0.15) * \<bar>t - c\<bar>" .
  show "min c t \<le> c'" unfolding assms by (cases "c \<le> t") (simp_all add: min_def field_simps)
  show "c' \<le> max c t" unfolding assms by (cases "c \<le> t") (simp_all add: max_def field_simps)
qed

text \<open>
  Claim C2. A river dab with organic river enabled sets \<^verbatim>\<open>currentWidthFactor\<close> to
  \<open>c + 0.15 * (t' - c)\<close>, where \<open>c\<close> is its old value and \<open>t'\<close> the target in force for this
  dab (the old target, unless the dab has just drawn a new one). So the signed and the
  absolute distance to the target shrink by exactly \<open>1 - 0.15\<close>, the new value lies between
  the old value and the target, and it never passes the target. When the travelled
  distance stays below the threshold the target is unchanged.
\<close>

theorem river_width_smoothing:
  assumes "mapCtx (engine w) = Some m" and "paintMode state = River" and "isOrganicRiver state"
  shows "let rs = riverState (engine w);
             rs' = riverState (engine (applyPaint pf x y state w));
             c = currentWidthFactor rs; c' = currentWidthFactor rs'; t' = targetWidthFactor rs'
         in c' = c + 0.15 * (t' - c)
          \<and> t' - c' = (1 - 0.15) * (t' - c)
          \<and> \<bar>t' - c'\<bar> = (1 - 0.15) * \<bar>t' - c\<bar>
          \<and> min c t' \<le> c' \<and> c' \<le> max c t'
          \<and> (traveledSinceChange rs + hypot (x - lastX rs) (y - lastY rs) < distToNextChange rs
               \<longrightarrow> t' = targetWidthFactor rs)"
proof -
  let ?rs = "riverState (engine w)"
  let ?o = "fst (organic_river x y (?rs, rng w))"
  have rs': "riverState (engine (applyPaint pf x y state w)) = ?o\<lparr>lastX := x, lastY := y\<rparr>"
    by (rule applyPaint_river_state[OF assms])
  have c': "currentWidthFactor ?o
              = currentWidthFactor ?rs + 0.15 * (targetWidthFactor ?o - currentWidthFactor ?rs)"
    by (rule organic_river_current)
  show ?thesis
    unfolding Let_def rs'
    using c' blend_step[OF c'] organic_river_target_fixed[of ?rs x y "rng w"]
    by simp
qed

theorem river_width_smoothing_witness:
  "mapCtx (engine river_world) = Some (new_context 720 360)
   \<and> paintMode (demo_state\<lparr>paintMode := River, isOrganicRiver := True\<rparr>) = River
   \<and> isOrganicRiver (demo_state\<lparr>paintMode := River, isOrganicRiver := True\<rparr>)
   \<and> traveledSinceChange (riverState (engine river_world))
        + hypot (10 - lastX (riverState (engine river_world)))
            (0 - lastY (riverState (engine river_world)))
        < distToNextChange (riverState (engine river_world))
   \<and> (let rs = riverState (engine river_world);
           rs' = riverState (engine (applyPaint demo_platform 10 0
                   (demo_state\<lparr>paintMode := River, isOrganicRiver := True\<rparr>) river_world));
           c = currentWidthFactor rs; c' = currentWidthFactor rs'; t' = targetWidthFactor rs'
       in c' = c + 0.15 * (t' - c)
        \<and> t' - c' = (1 - 0.15) * (t' - c)
        \<and> \<bar>t' - c'\<bar> = (1 - 0.15) * \<bar>t' - c\<bar>
        \<and> min c t' \<le> c' \<and> c' \<le> max c t'
        \<and> t' = targetWidthFactor rs)"
proof -
  have h1: "mapCtx (engine river_world) = Some (new_context 720 360)"
    by (simp add: river_world_def demo_world_initialised)
  have h2: "paintMode (demo_state\<lparr>paintMode := River, isOrganicRiver := True\<rparr>) = River"
    by simp
  have h3: "isOrganicRiver (demo_state\<lparr>paintMode := River, isOrganicRiver := True\<rparr>)"
    by simp
  have h4: "traveledSinceChange (riverState (engine river_world))
        + hypot (10 - lastX (riverState (engine river_world)))
            (0 - lastY (riverState (engine river_world)))
        < distToNextChange (riverState (engine river_world))"
    by (simp add: river_world_def hypot_axis)
  from river_width_smoothing [OF h1 h2 h3, where pf = demo_platform and x = 10 and y = 0,
      unfolded Let_def] h1 h2 h3 h4
  show ?thesis unfolding Let_def by blast
qed

section \<open>The path loop\<close>

text \<open>
  The spacing is at least 1, so the loop ends: after at most \<open>k\<close> rounds, for any \<open>k\<close> with
  \<open>L - c < k * S\<close>.
\<close>

lemma loop_bound: "0 < (S::real) \<Longrightarrow> \<exists>k::nat. L - c < real k * S"
  using ex_less_of_nat_mult[of S "L - c"] by auto

lemma path_loop_stop:
  "L < c \<Longrightarrow> path_loop pf st x1 y1 nx ny a S L c ctx ms = Some (c, ctx, ms)"
  by (subst path_loop.simps) simp

lemma path_loop_step:
  "c \<le> L \<Longrightarrow> path_loop pf st x1 y1 nx ny a S L c ctx ms =
     path_loop pf st x1 y1 nx ny a S L (c + S)
       (draw_mark pf st a (x1 + nx * c) (y1 + ny * c) ctx) (ms @ [(x1 + nx * c, y1 + ny * c)])"
  by (subst path_loop.simps) simp

lemma path_loop_run_aux:
  assumes "0 < S"
  shows "L - c < real k * S \<Longrightarrow>
     \<exists>c' ctx' ms'. path_loop pf st x1 y1 nx ny a S L c ctx ms = Some (c', ctx', ms')
        \<and> L < c' \<and> (c \<le> L \<longrightarrow> c' \<le> L + S) \<and> (L < c \<longrightarrow> c' = c)
        \<and> cur ctx' = cur ctx \<and> saved ctx' = saved ctx"
proof (induction k arbitrary: c ctx ms)
  case 0
  then have "L < c" by simp
  then show ?case by (simp add: path_loop_stop)
next
  case (Suc k)
  show ?case
  proof (cases "c \<le> L")
    case False
    then show ?thesis by (simp add: path_loop_stop)
  next
    case True
    let ?ctx = "draw_mark pf st a (x1 + nx * c) (y1 + ny * c) ctx"
    let ?ms = "ms @ [(x1 + nx * c, y1 + ny * c)]"
    have "L - (c + S) < real k * S" using Suc.prems by (simp add: algebra_simps)
    from Suc.IH[OF this, of ?ctx ?ms]
    obtain c' ctx' ms' where r: "path_loop pf st x1 y1 nx ny a S L (c + S) ?ctx ?ms = Some (c', ctx', ms')"
      and b: "L < c'" "c + S \<le> L \<longrightarrow> c' \<le> L + S" "L < c + S \<longrightarrow> c' = c + S"
      and k: "cur ctx' = cur ?ctx" "saved ctx' = saved ?ctx"
      by blast
    have dm: "cur ?ctx = cur ctx" "saved ?ctx = saved ctx"
      by (simp_all add: draw_mark_def Let_def restore_def save_def rotate_def translate_def
            fillRect_def fill_def arc_def beginPath_def draw_def)
    have "c' \<le> L + S" using b True by (cases "c + S \<le> L") auto
    then show ?thesis using True r b k dm by (simp add: path_loop_step)
  qed
qed

lemma path_loop_run:
  assumes "0 < S"
  shows "\<exists>c' ctx' ms'. path_loop pf st x1 y1 nx ny a S L c ctx ms = Some (c', ctx', ms')
        \<and> L < c' \<and> (c \<le> L \<longrightarrow> c' \<le> L + S) \<and> (L < c \<longrightarrow> c' = c)
        \<and> cur ctx' = cur ctx \<and> saved ctx' = saved ctx"
  using loop_bound[OF assms, of L c] path_loop_run_aux[OF assms] by blast











lemma drawPathSegment_run:
  assumes "pathCtx e = Some ctx" and "\<not> hypot (x2 - x1) (y2 - y1) < 0.5"
    and "path_loop pf state x1 y1 ((x2 - x1) / hypot (x2 - x1) (y2 - y1))
           ((y2 - y1) / hypot (x2 - x1) (y2 - y1)) (atan2 (y2 - y1) (x2 - x1))
           (max 1 (brushSize state * pathSpacing state)) (hypot (x2 - x1) (y2 - y1))
           (pathRemainder e)
           (set_globalAlpha (brushBlur state / 100)
              (set_fillStyle (FillColor (ColorText (pathColor state))) ctx)) [] = Some (c, ctx', ms)"
  shows "drawPathSegment pf x1 y1 x2 y2 state e
           = Some (e\<lparr>pathCtx := Some ctx', pathRemainder := c - hypot (x2 - x1) (y2 - y1)\<rparr>, ms)"
  using assms by (simp add: drawPathSegment_def Let_def)



text \<open>
  The scenario of the specification: dots with brush size 10 and spacing factor 2.5 along
  a straight segment of 100 pixels fall at 0, 25, 50, 75 and 100.
\<close>

lemma scenario_marks:
  "\<exists>e'. drawPathSegment pf 0 0 100 0 (demo_state\<lparr>brushSize := 10\<rparr>) (engine demo_world)
        = Some (e', [(0, 0), (25, 0), (50, 0), (75, 0), (100, 0)]) \<and> pathRemainder e' = 25"
  apply (simp add: drawPathSegment_def demo_world_initialised Let_def hypot_axis demo_state_def)
  apply (simp add: demo_world_def init_def new_MapEngine_def path_loop_step path_loop_stop hypot_axis)
  done



section \<open>The stamp cache\<close>


lemma generate_offCanvas:
  "\<exists>off. offCanvas (fst (generate pf sz r b rO bO Sg)) = Some off"
  by (simp add: generate_def Let_def)





section \<open>Stamps on the layers\<close>

lemma generate_tint: "tintCanvas (fst (generate pf sz r b rO bO Sg)) = tintCanvas (fst Sg)"
  by (simp add: generate_def Let_def)

lemma drawStamp_fixed_rotation:
  assumes "offCanvas (fst (generate pf sz gR gB rO bO Sg)) = Some off"
  shows "drawStamp pf ctx x y sz col opacity gR gB rO bO (Some rot) Sg =
          (let Sg1 = generate pf sz gR gB rO bO Sg;
               tint = tint_buffer pf (canvas off) col (tintCanvas (fst Sg))
           in (stamp_onto pf (canvas tint) x y rot opacity ctx,
               (fst Sg1)\<lparr>tintCanvas := Some tint\<rparr>, snd Sg1))"
  using assms by (simp add: drawStamp_def Let_def generate_tint)

lemma drawStamp_random_rotation:
  assumes "offCanvas (fst (generate pf sz gR gB rO bO Sg)) = Some off"
  shows "drawStamp pf ctx x y sz col opacity gR gB rO bO None Sg =
          (let Sg1 = generate pf sz gR gB rO bO Sg;
               tint = tint_buffer pf (canvas off) col (tintCanvas (fst Sg))
           in (stamp_onto pf (canvas tint) x y (fst (Math_random (snd Sg1)) * pi * 2) opacity ctx,
               (fst Sg1)\<lparr>tintCanvas := Some tint\<rparr>, snd (Math_random (snd Sg1))))"
  using assms by (simp add: drawStamp_def Let_def generate_tint)

lemma stamp_onto_state:
  "cur (stamp_onto pf tint x y rot opacity ctx) = cur ctx"
  "saved (stamp_onto pf tint x y rot opacity ctx) = saved ctx"
  "path (stamp_onto pf tint x y rot opacity ctx) = path ctx"
  by (simp_all add: stamp_onto_def Let_def restore_def save_def translate_def rotate_def
        set_globalAlpha_def drawImage_def drawImage9_def draw_def)






section \<open>Who writes the masks\<close>

lemma updateShallowWater_frame:
  "maskCtx (updateShallowWater pf col en e) = maskCtx e"
  "textureMaskCtx (updateShallowWater pf col en e) = textureMaskCtx e"
  by (simp_all add: updateShallowWater_def Let_def split: option.splits)

lemma restore_save_stamp:
  "restore (stamp_onto pf tint x y rot opacity (set_globalCompositeOperation op (save ctx)))
     = (stamp_onto pf tint x y rot opacity (set_globalCompositeOperation op (save ctx)))
         \<lparr>cur := cur ctx, saved := saved ctx\<rparr>"
  by (simp add: restore_def stamp_onto_state set_globalCompositeOperation_def save_def)

lemma paint_source_over_alpha:
  assumes "0 \<le> pa (A p)" and "pa (pix c p) \<le> 1"
  shows "pa (pix c p) \<le> pa (pix (paint SourceOver A c) p)"
proof (cases "in_canvas c p")
  case True
  have "0 \<le> pa (A p) * (1 - pa (pix c p))" using assms by simp
  then show ?thesis using True by (simp add: paint_def px_add_def px_scale_def algebra_simps)
next
  case False
  then show ?thesis by (simp add: paint_def)
qed

lemma paint_destination_out_alpha:
  assumes "0 \<le> pa (A p)" and "0 \<le> pa (pix c p)"
  shows "pa (pix (paint DestinationOut A c) p) \<le> pa (pix c p)"
proof (cases "in_canvas c p")
  case True
  have "0 \<le> pa (A p) * pa (pix c p)" using assms by simp
  then show ?thesis using True by (simp add: paint_def px_scale_def algebra_simps)
next
  case False
  then show ?thesis by (simp add: paint_def)
qed

lemma stamp_onto_canvas:
  assumes "\<not> shadows_drawn (cur ctx)" and "width tint \<noteq> 0" and "height tint \<noteq> 0"
  shows "canvas (stamp_onto pf tint x y rot opacity ctx)
           = paint (globalCompositeOperation (cur ctx)) (stamp_image pf (cur ctx) tint x y rot opacity)
               (canvas ctx)"
proof -
  have sh: "\<not> shadows_drawn (cur ctx\<lparr>transform := t, globalAlpha := a\<rparr>)"
    "\<not> shadows_drawn (cur ctx\<lparr>transform := t\<rparr>)" for t a
    using assms(1) by (simp_all add: shadows_drawn_def)
  show ?thesis
    using assms sh
    by (simp add: stamp_onto_def Let_def restore_def save_def translate_def rotate_def
          set_globalAlpha_def drawImage_def drawImage9_def draw_def image_A_def stamp_image_def)
qed

lemma stamp_image_alpha:
  assumes "raster_alpha_nonneg pf" and "0 \<le> globalAlpha st"
  shows "0 \<le> pa (stamp_image pf st tint x y rot opacity p)"
proof -
  have "0 \<le> pa (raster pf tr fs q p)" for tr fs q
    using assms(1) unfolding raster_alpha_nonneg_def by blast
  then show ?thesis using assms(2) by (simp add: stamp_image_def px_simps)
qed

lemma stamp_onto_additive:
  assumes "raster_alpha_nonneg pf" and "mask_ready ctx"
  shows "pa (pix (canvas ctx) p) \<le> pa (pix (canvas (stamp_onto pf tint x y rot opacity ctx)) p)"
proof (cases "width tint = 0 \<or> height tint = 0")
  case True
  then show ?thesis
    by (auto simp add: stamp_onto_def Let_def restore_def save_def translate_def rotate_def
          set_globalAlpha_def drawImage_def drawImage9_def)
next
  case False
  have r: "\<not> shadows_drawn (cur ctx)" "globalCompositeOperation (cur ctx) = SourceOver"
    "0 \<le> globalAlpha (cur ctx)" "pa (pix (canvas ctx) p) \<le> 1"
    using assms(2) unfolding mask_ready_def by blast+
  show ?thesis
    using False stamp_onto_canvas[OF r(1), of tint pf x y rot opacity]
      paint_source_over_alpha[OF stamp_image_alpha[OF assms(1) r(3)] r(4)] r(2)
    by simp
qed

lemma stamp_onto_subtractive:
  assumes "raster_alpha_nonneg pf" and "mask_ready ctx"
  shows "pa (pix (canvas (restore (stamp_onto pf tint x y rot opacity
             (set_globalCompositeOperation DestinationOut (save ctx))))) p)
           \<le> pa (pix (canvas ctx) p)"
proof -
  let ?c = "set_globalCompositeOperation DestinationOut (save ctx)"
  have r0: "\<not> shadows_drawn (cur ctx)" "0 \<le> globalAlpha (cur ctx)" "0 \<le> pa (pix (canvas ctx) p)"
    using assms(2) unfolding mask_ready_def by blast+
  have r: "\<not> shadows_drawn (cur ?c)" "globalCompositeOperation (cur ?c) = DestinationOut"
    "0 \<le> globalAlpha (cur ?c)" "0 \<le> pa (pix (canvas ?c) p)" "canvas ?c = canvas ctx"
    using r0
    by (simp_all add: set_globalCompositeOperation_def save_def shadows_drawn_def)
  have k: "canvas (restore (stamp_onto pf tint x y rot opacity ?c))
             = canvas (stamp_onto pf tint x y rot opacity ?c)"
    by (simp add: restore_def stamp_onto_state set_globalCompositeOperation_def save_def)
  show ?thesis
  proof (cases "width tint = 0 \<or> height tint = 0")
    case True
    then show ?thesis
      unfolding k
      by (auto simp add: stamp_onto_def Let_def restore_def save_def translate_def rotate_def
            set_globalAlpha_def drawImage_def drawImage9_def set_globalCompositeOperation_def)
  next
    case False
    show ?thesis
      unfolding k
      using False stamp_onto_canvas[OF r(1), of tint pf x y rot opacity]
        paint_destination_out_alpha[OF stamp_image_alpha[OF assms(1) r(3)] r(4)] r(2) r(5)
      by simp
  qed
qed

lemma restore_source_over:
  assumes "globalCompositeOperation (cur ctx) = SourceOver"
  shows "canvas (restore (stamp_onto pf tint x y rot opacity
             (set_globalCompositeOperation SourceOver (save ctx))))
         = canvas (stamp_onto pf tint x y rot opacity ctx)"
proof -
  have "(cur ctx)\<lparr>globalCompositeOperation := SourceOver\<rparr> = cur ctx"
    using assms by (cases "cur ctx") simp
  then have "set_globalCompositeOperation SourceOver (save ctx) = save ctx"
    by (simp add: set_globalCompositeOperation_def save_def)
  then show ?thesis
    by (simp add: stamp_onto_def Let_def restore_def save_def translate_def rotate_def
          set_globalAlpha_def drawImage_def drawImage9_def draw_def)
qed

text \<open>
  Claim C7. On an initialised engine \<^verbatim>\<open>applyPaint\<close> leaves the land mask (canvas and
  context) as it is unless the mode is terrain or river; in particular in texture mode,
  with or without an active texture. It leaves the texture mask as it is unless the mode
  is texture with an active texture. A terrain dab changes the land mask by one stamp of
  full opacity drawn with the mask context's own operator (source-over, which no call
  changes for good); a river dab by one such stamp drawn with destination-out between
  save and restore; a texture dab with an active texture changes the texture mask by one
  stamp drawn with destination-out when the eraser is on and with source-over otherwise.
  \<^verbatim>\<open>renderTextureLayer\<close> and \<^verbatim>\<open>updateShallowWater\<close> return both masks unchanged.
  With a rasteriser that produces no negative alpha and a mask in its usual state, a
  terrain dab lowers the alpha of no pixel of the land mask and a river dab raises none;
  a texture dab raises no alpha of the texture mask with the eraser and lowers none
  without it.
\<close>

theorem masks_mutated_only_by_their_tools:
  assumes init: "mapCtx (engine w) = Some m"
    and sT: "paintMode sT = Terrain" and sR: "paintMode sR = River"
    and sX: "paintMode sX = Texture \<and> truthy (activeTexture sX)"
    and sL: "paintMode sL \<noteq> Terrain \<and> paintMode sL \<noteq> River"
    and sM: "\<not> (paintMode sM = Texture \<and> truthy (activeTexture sM))"
  shows "maskCtx (engine (applyPaint pf x y sL w)) = maskCtx (engine w)
       \<and> textureMaskCtx (engine (applyPaint pf x y sM w)) = textureMaskCtx (engine w)
       \<and> (\<exists>tint rot. maskCtx (engine (applyPaint pf x y sT w))
              = stamp_onto pf tint x y rot 1 (maskCtx (engine w)))
       \<and> (\<exists>tint rot. maskCtx (engine (applyPaint pf x y sR w))
              = restore (stamp_onto pf tint x y rot 1
                  (set_globalCompositeOperation DestinationOut (save (maskCtx (engine w))))))
       \<and> (\<exists>tint rot. textureMaskCtx (engine (applyPaint pf x y sX w))
              = restore (stamp_onto pf tint x y rot (brushBlur sX / 100)
                  (set_globalCompositeOperation
                     (if isTextureEraser sX then DestinationOut else SourceOver)
                     (save (textureMaskCtx (engine w))))))
       \<and> maskCtx (renderTextureLayer pf dirtyX dirtyY dirtyR e) = maskCtx e
       \<and> textureMaskCtx (renderTextureLayer pf dirtyX dirtyY dirtyR e) = textureMaskCtx e
       \<and> maskCtx (updateShallowWater pf shallowColor isEnabled e) = maskCtx e
       \<and> textureMaskCtx (updateShallowWater pf shallowColor isEnabled e) = textureMaskCtx e
       \<and> (raster_alpha_nonneg pf \<and> mask_ready (maskCtx (engine w)) \<longrightarrow>
            (\<forall>p. pa (pix (canvas (maskCtx (engine w))) p)
                   \<le> pa (pix (canvas (maskCtx (engine (applyPaint pf x y sT w)))) p))
          \<and> (\<forall>p. pa (pix (canvas (maskCtx (engine (applyPaint pf x y sR w)))) p)
                   \<le> pa (pix (canvas (maskCtx (engine w))) p)))
       \<and> (raster_alpha_nonneg pf \<and> mask_ready (textureMaskCtx (engine w)) \<longrightarrow>
            (\<forall>p. if isTextureEraser sX
                 then pa (pix (canvas (textureMaskCtx (engine (applyPaint pf x y sX w)))) p)
                        \<le> pa (pix (canvas (textureMaskCtx (engine w))) p)
                 else pa (pix (canvas (textureMaskCtx (engine w))) p)
                        \<le> pa (pix (canvas (textureMaskCtx (engine (applyPaint pf x y sX w)))) p)))"
proof -
  have L: "maskCtx (engine (applyPaint pf x y sL w)) = maskCtx (engine w)"
    using init sL
    by (cases "paintMode sL")
       (simp_all add: applyPaint_def Let_def render_in_frame drawStamp_def split: option.splits)
  have M: "textureMaskCtx (engine (applyPaint pf x y sM w)) = textureMaskCtx (engine w)"
    using init sM
    by (cases "paintMode sM")
       (simp_all add: applyPaint_def Let_def render_in_frame drawToMask_frame eraseFromMask_frame
          split: option.splits)
  have T: "\<exists>tint rot. maskCtx (engine (applyPaint pf x y sT w))
              = stamp_onto pf tint x y rot 1 (maskCtx (engine w))"
  proof -
    let ?g = "snd (Math_random (rng w))"
    obtain off where off: "offCanvas (fst (generate pf (brushSize sT) (roughness sT) (blurWidth sT)
                             None (Some 95) (stamp w, ?g))) = Some off"
      using generate_offCanvas by blast
    show ?thesis
      using init sT drawStamp_fixed_rotation[OF off]
      by (simp add: applyPaint_def Let_def render_in_frame drawToMask_def) blast
  qed
  have R: "\<exists>tint rot. maskCtx (engine (applyPaint pf x y sR w))
              = restore (stamp_onto pf tint x y rot 1
                  (set_globalCompositeOperation DestinationOut (save (maskCtx (engine w)))))"
  proof -
    let ?rg = "if isOrganicRiver sR then organic_river x y (riverState (engine w), rng w)
               else (riverState (engine w), rng w)"
    let ?fr = "if isOrganicRiver sR then brushSize sR * currentWidthFactor (fst ?rg) else brushSize sR"
    let ?g = "snd (Math_random (snd ?rg))"
    obtain off where off: "offCanvas (fst (generate pf ?fr (roughness sR) (blurWidth sR)
                             None (Some 100) (stamp w, ?g))) = Some off"
      using generate_offCanvas by blast
    show ?thesis
      using init sR drawStamp_fixed_rotation[OF off]
      by (simp add: applyPaint_def Let_def render_in_frame eraseFromMask_def) blast
  qed
  have X: "\<exists>tint rot. textureMaskCtx (engine (applyPaint pf x y sX w))
              = restore (stamp_onto pf tint x y rot (brushBlur sX / 100)
                  (set_globalCompositeOperation
                     (if isTextureEraser sX then DestinationOut else SourceOver)
                     (save (textureMaskCtx (engine w)))))"
  proof -
    obtain off where off: "offCanvas (fst (generate pf (brushSize sX) (roughness sX) (blurWidth sX)
                             (Some 0) (Some (blurWidth sX)) (stamp w, rng w))) = Some off"
      using generate_offCanvas by blast
    show ?thesis
      using init sX drawStamp_random_rotation[OF off]
      by (simp add: applyPaint_def Let_def render_in_frame) blast
  qed
  have A1: "raster_alpha_nonneg pf \<and> mask_ready (maskCtx (engine w)) \<longrightarrow>
            (\<forall>p. pa (pix (canvas (maskCtx (engine w))) p)
                   \<le> pa (pix (canvas (maskCtx (engine (applyPaint pf x y sT w)))) p))
          \<and> (\<forall>p. pa (pix (canvas (maskCtx (engine (applyPaint pf x y sR w)))) p)
                   \<le> pa (pix (canvas (maskCtx (engine w))) p))"
  proof
    assume a: "raster_alpha_nonneg pf \<and> mask_ready (maskCtx (engine w))"
    from T obtain tint rot where t: "maskCtx (engine (applyPaint pf x y sT w))
              = stamp_onto pf tint x y rot 1 (maskCtx (engine w))" by blast
    from R obtain tint' rot' where r: "maskCtx (engine (applyPaint pf x y sR w))
              = restore (stamp_onto pf tint' x y rot' 1
                  (set_globalCompositeOperation DestinationOut (save (maskCtx (engine w)))))"
      by blast
    show "(\<forall>p. pa (pix (canvas (maskCtx (engine w))) p)
                   \<le> pa (pix (canvas (maskCtx (engine (applyPaint pf x y sT w)))) p))
          \<and> (\<forall>p. pa (pix (canvas (maskCtx (engine (applyPaint pf x y sR w)))) p)
                   \<le> pa (pix (canvas (maskCtx (engine w))) p))"
      unfolding t r using a stamp_onto_additive stamp_onto_subtractive by blast
  qed
  have A2: "raster_alpha_nonneg pf \<and> mask_ready (textureMaskCtx (engine w)) \<longrightarrow>
            (\<forall>p. if isTextureEraser sX
                 then pa (pix (canvas (textureMaskCtx (engine (applyPaint pf x y sX w)))) p)
                        \<le> pa (pix (canvas (textureMaskCtx (engine w))) p)
                 else pa (pix (canvas (textureMaskCtx (engine w))) p)
                        \<le> pa (pix (canvas (textureMaskCtx (engine (applyPaint pf x y sX w)))) p))"
  proof
    assume a: "raster_alpha_nonneg pf \<and> mask_ready (textureMaskCtx (engine w))"
    then have so: "globalCompositeOperation (cur (textureMaskCtx (engine w))) = SourceOver"
      by (simp add: mask_ready_def)
    from X obtain tint rot where t: "textureMaskCtx (engine (applyPaint pf x y sX w))
              = restore (stamp_onto pf tint x y rot (brushBlur sX / 100)
                  (set_globalCompositeOperation
                     (if isTextureEraser sX then DestinationOut else SourceOver)
                     (save (textureMaskCtx (engine w)))))" by blast
    show "\<forall>p. if isTextureEraser sX
                 then pa (pix (canvas (textureMaskCtx (engine (applyPaint pf x y sX w)))) p)
                        \<le> pa (pix (canvas (textureMaskCtx (engine w))) p)
                 else pa (pix (canvas (textureMaskCtx (engine w))) p)
                        \<le> pa (pix (canvas (textureMaskCtx (engine (applyPaint pf x y sX w)))) p)"
    proof (cases "isTextureEraser sX")
      case True
      then show ?thesis unfolding t using a stamp_onto_subtractive by simp
    next
      case False
      then show ?thesis
        unfolding t using a stamp_onto_additive by (simp add: restore_source_over[OF so])
    qed
  qed
  show ?thesis
    using L M T R X A1 A2 by (simp add: renderTextureLayer_frame updateShallowWater_frame)
qed

lemma demo_masks_ready:
  "raster_alpha_nonneg demo_platform"
  "mask_ready (maskCtx (engine demo_world))"
  "mask_ready (textureMaskCtx (engine demo_world))"
  by (simp_all add: raster_alpha_nonneg_def demo_platform_def mask_ready_def demo_world_def
        init_def new_MapEngine_def createElement_canvas_def set_width_def set_height_def
        new_context_def blank_def default_dstate_def shadows_drawn_def clearRect_def
        transparent_def)

theorem masks_mutated_only_by_their_tools_witness:
  "mapCtx (engine demo_world) = Some (new_context 720 360)
   \<and> paintMode demo_state = Terrain
   \<and> paintMode (demo_state\<lparr>paintMode := River\<rparr>) = River
   \<and> paintMode (demo_state\<lparr>paintMode := Texture, activeTexture := Some ''grass''\<rparr>) = Texture
   \<and> truthy (activeTexture (demo_state\<lparr>paintMode := Texture, activeTexture := Some ''grass''\<rparr>))
   \<and> paintMode (demo_state\<lparr>paintMode := Texture\<rparr>) \<noteq> Terrain
   \<and> paintMode (demo_state\<lparr>paintMode := Texture\<rparr>) \<noteq> River
   \<and> \<not> (paintMode demo_state = Texture \<and> truthy (activeTexture demo_state))
   \<and> raster_alpha_nonneg demo_platform
   \<and> mask_ready (maskCtx (engine demo_world))
   \<and> mask_ready (textureMaskCtx (engine demo_world))
   \<and> maskCtx (engine (applyPaint demo_platform 100 50 (demo_state\<lparr>paintMode := Texture\<rparr>) demo_world))
        = maskCtx (engine demo_world)
   \<and> textureMaskCtx (engine (applyPaint demo_platform 100 50 demo_state demo_world))
        = textureMaskCtx (engine demo_world)
   \<and> (\<exists>tint rot. maskCtx (engine (applyPaint demo_platform 100 50 demo_state demo_world))
          = stamp_onto demo_platform tint 100 50 rot 1 (maskCtx (engine demo_world)))
   \<and> (\<exists>tint rot. maskCtx (engine (applyPaint demo_platform 100 50
                                     (demo_state\<lparr>paintMode := River\<rparr>) demo_world))
          = restore (stamp_onto demo_platform tint 100 50 rot 1
              (set_globalCompositeOperation DestinationOut (save (maskCtx (engine demo_world))))))
   \<and> maskCtx (renderTextureLayer demo_platform None None None (engine demo_world))
        = maskCtx (engine demo_world)
   \<and> textureMaskCtx (updateShallowWater demo_platform ''#38bdf8'' True (engine demo_world))
        = textureMaskCtx (engine demo_world)
   \<and> (\<forall>p. pa (pix (canvas (maskCtx (engine demo_world))) p)
          \<le> pa (pix (canvas (maskCtx (engine (applyPaint demo_platform 100 50 demo_state
                                                 demo_world)))) p))
   \<and> (\<forall>p. pa (pix (canvas (maskCtx (engine (applyPaint demo_platform 100 50
                                               (demo_state\<lparr>paintMode := River\<rparr>) demo_world)))) p)
          \<le> pa (pix (canvas (maskCtx (engine demo_world))) p))
   \<and> (\<forall>p. pa (pix (canvas (textureMaskCtx (engine demo_world))) p)
          \<le> pa (pix (canvas (textureMaskCtx (engine (applyPaint demo_platform 100 50
                 (demo_state\<lparr>paintMode := Texture, activeTexture := Some ''grass''\<rparr>)
                 demo_world)))) p))"
proof -
  have h1: "mapCtx (engine demo_world) = Some (new_context 720 360)"
    by (rule demo_world_initialised)
  have h2: "paintMode demo_state = Terrain" by (simp add: demo_state_def)
  have h3: "paintMode (demo_state\<lparr>paintMode := River\<rparr>) = River" by simp
  have h4: "paintMode (demo_state\<lparr>paintMode := Texture, activeTexture := Some ''grass''\<rparr>) = Texture
        \<and> truthy (activeTexture (demo_state\<lparr>paintMode := Texture, activeTexture := Some ''grass''\<rparr>))"
    by (simp add: truthy_def)
  have h5: "paintMode (demo_state\<lparr>paintMode := Texture\<rparr>) \<noteq> Terrain
        \<and> paintMode (demo_state\<lparr>paintMode := Texture\<rparr>) \<noteq> River"
    by simp
  have h6: "\<not> (paintMode demo_state = Texture \<and> truthy (activeTexture demo_state))"
    by (simp add: demo_state_def)
  have e: "\<not> isTextureEraser (demo_state\<lparr>paintMode := Texture, activeTexture := Some ''grass''\<rparr>)"
    by (simp add: demo_state_def)
  from masks_mutated_only_by_their_tools [OF h1 h2 h3 h4 h5 h6, where pf = demo_platform
        and x = 100 and y = 50 and dirtyX = None and dirtyY = None and dirtyR = None
        and e = "engine demo_world" and shallowColor = "''#38bdf8''" and isEnabled = True]
    h1 h2 h3 h4 h5 h6 e demo_masks_ready
  show ?thesis by (simp only: if_False) blast
qed

section \<open>The texture layer\<close>

lemma paint_empty:
  assumes "width c \<le> 0 \<or> height c \<le> 0"
  shows "paint op A c = c"
proof -
  have "(\<lambda>p. if in_canvas c p then blend op (A p) (pix c p) else pix c p) = pix c"
    using assms by (intro ext) (auto simp add: in_canvas_def)
  then show ?thesis by (simp add: paint_def)
qed

lemma draw_empty:
  assumes "width (canvas ctx) \<le> 0 \<or> height (canvas ctx) \<le> 0"
  shows "draw pf q ctx = ctx"
  using assms by (simp add: draw_def Let_def paint_empty)

lemma clearRect_empty:
  assumes "width (canvas ctx) \<le> 0 \<or> height (canvas ctx) \<le> 0"
  shows "clearRect x y w h ctx = ctx"
proof -
  have "(\<lambda>p. if in_rect (min x (x + w)) (min y (y + h)) \<bar>w\<bar> \<bar>h\<bar> p \<and> in_canvas (canvas ctx) p
             then transparent else pix (canvas ctx) p) = pix (canvas ctx)"
    using assms by (intro ext) (auto simp add: in_canvas_def)
  then show ?thesis by (simp add: clearRect_def)
qed

lemma clearRect_cover:
  assumes "x \<le> 0" and "y \<le> 0" and "width (canvas ctx) \<le> x + w" and "height (canvas ctx) \<le> y + h"
  shows "clearRect x y w h ctx = clearRect 0 0 (width (canvas ctx)) (height (canvas ctx)) ctx"
proof -
  have "(\<lambda>p. if in_rect (min x (x + w)) (min y (y + h)) \<bar>w\<bar> \<bar>h\<bar> p \<and> in_canvas (canvas ctx) p
             then transparent else pix (canvas ctx) p)
      = (\<lambda>p. if in_rect (min 0 (0 + width (canvas ctx))) (min 0 (0 + height (canvas ctx)))
                   \<bar>width (canvas ctx)\<bar> \<bar>height (canvas ctx)\<bar> p \<and> in_canvas (canvas ctx) p
             then transparent else pix (canvas ctx) p)"
    using assms by (intro ext) (auto simp add: in_rect_def in_canvas_def)
  then show ?thesis by (simp add: clearRect_def)
qed

lemma dirty_rect_cover:
  assumes "\<lfloor>x - r\<rfloor> \<le> 0" and "\<lfloor>y - r\<rfloor> \<le> 0"
    and "w \<le> \<lfloor>x - r\<rfloor> + \<lceil>r * 2\<rceil>" and "h \<le> \<lfloor>y - r\<rfloor> + \<lceil>r * 2\<rceil>"
  shows "dirty_rect w h (Some x) (Some y) (Some r)
           = (if w \<le> 0 \<or> h \<le> 0 then None else Some (0, 0, w, h))"
proof -
  have m: "max 0 \<lfloor>x - r\<rfloor> = 0" "max 0 \<lfloor>y - r\<rfloor> = 0"
    "min w (\<lfloor>x - r\<rfloor> + \<lceil>r * 2\<rceil>) = w" "min h (\<lfloor>y - r\<rfloor> + \<lceil>r * 2\<rceil>) = h"
    using assms by linarith+
  show ?thesis
    unfolding dirty_rect_def Let_def prod.case option.case m by simp
qed

lemma square_covers:
  fixes x y r :: real
  assumes "x - r \<le> 0" and "y - r \<le> 0" and "of_int w \<le> x + r" and "of_int h \<le> y + r"
  shows "\<lfloor>x - r\<rfloor> \<le> 0 \<and> \<lfloor>y - r\<rfloor> \<le> 0
       \<and> w \<le> \<lfloor>x - r\<rfloor> + \<lceil>r * 2\<rceil> \<and> h \<le> \<lfloor>y - r\<rfloor> + \<lceil>r * 2\<rceil>"
proof -
  have fx: "x - r < of_int \<lfloor>x - r\<rfloor> + 1" and fy: "y - r < of_int \<lfloor>y - r\<rfloor> + 1"
    and fx': "of_int \<lfloor>x - r\<rfloor> \<le> x - r" and fy': "of_int \<lfloor>y - r\<rfloor> \<le> y - r"
    and c: "r * 2 \<le> of_int \<lceil>r * 2\<rceil>"
    by linarith+
  have a: "\<lfloor>x - r\<rfloor> \<le> 0"
  proof -
    have "real_of_int \<lfloor>x - r\<rfloor> \<le> real_of_int 0" using fx' assms(1) by simp
    then show ?thesis by (simp only: of_int_le_iff)
  qed
  have b: "\<lfloor>y - r\<rfloor> \<le> 0"
  proof -
    have "real_of_int \<lfloor>y - r\<rfloor> \<le> real_of_int 0" using fy' assms(2) by simp
    then show ?thesis by (simp only: of_int_le_iff)
  qed
  have cw: "w \<le> \<lfloor>x - r\<rfloor> + \<lceil>r * 2\<rceil>"
  proof -
    have "real_of_int w < real_of_int (\<lfloor>x - r\<rfloor> + \<lceil>r * 2\<rceil> + 1)"
      using fx c assms(3) unfolding of_int_add of_int_1 by linarith
    then have "w < \<lfloor>x - r\<rfloor> + \<lceil>r * 2\<rceil> + 1" by (simp only: of_int_less_iff)
    then show ?thesis by simp
  qed
  have ch: "h \<le> \<lfloor>y - r\<rfloor> + \<lceil>r * 2\<rceil>"
  proof -
    have "real_of_int h < real_of_int (\<lfloor>y - r\<rfloor> + \<lceil>r * 2\<rceil> + 1)"
      using fy c assms(4) unfolding of_int_add of_int_1 by linarith
    then have "h < \<lfloor>y - r\<rfloor> + \<lceil>r * 2\<rceil> + 1" by (simp only: of_int_less_iff)
    then show ?thesis by simp
  qed
  show ?thesis using a b cw ch by blast
qed

lemma render_empty_canvas:
  assumes "textureLayerCtx e = Some ctx" and "currentTextureImg e = Some img"
    and "width (canvas ctx) \<le> 0 \<or> height (canvas ctx) \<le> 0"
  shows "renderTextureLayer pf None None None e = e"
proof -
  have c: "width (canvas (save ctx)) \<le> 0 \<or> height (canvas (save ctx)) \<le> 0"
    using assms(3) by (simp add: save_def)
  have "restore (set_globalCompositeOperation DestinationIn
          (set_globalCompositeOperation DestinationIn (set_fillStyle f (save ctx)))) = ctx" for f
    by (simp add: restore_def set_globalCompositeOperation_def set_fillStyle_def save_def)
  moreover have "restore (set_globalCompositeOperation DestinationIn
          (set_globalCompositeOperation DestinationIn (save ctx))) = ctx"
    by (simp add: restore_def set_globalCompositeOperation_def save_def)
  ultimately show ?thesis
    using assms c
    by (simp add: renderTextureLayer_def dirty_rect_def Let_def clearRect_empty draw_empty
          fillRect_def drawImage9_def set_fillStyle_def set_globalCompositeOperation_def save_def
          split: option.splits)
qed

lemma dirty_rect_inside:
  assumes "dirty_rect w h dX dY dR = Some (X, Y, W, H)" and "in_rect X Y W H p"
  shows "0 \<le> fst p \<and> fst p < w \<and> 0 \<le> snd p \<and> snd p < h \<and> 0 < W \<and> 0 < H"
  using assms
  by (auto simp add: dirty_rect_def Let_def in_rect_def split: option.splits if_splits)

lemma clearRect_pixel:
  assumes "in_canvas (canvas ctx) q" and "in_rect x y w h q"
  shows "pix (canvas (clearRect x y w h ctx)) q = transparent"
proof -
  have "0 < w" "0 < h" using assms(2) by (auto simp add: in_rect_def)
  then show ?thesis using assms by (simp add: clearRect_def min_def)
qed

lemma demo_texture_layer:
  "textureLayerCtx untextured_engine = Some demo_texture_ctx"
  "textureLayerCtx textured_engine = Some demo_texture_ctx"
  "cur demo_texture_ctx = default_dstate"
  "width (canvas demo_texture_ctx) = 720" "height (canvas demo_texture_ctx) = 360"
  by (simp_all add: textured_engine_def untextured_engine_def demo_world_def init_def
        demo_texture_ctx_def set_width_def set_height_def new_context_def blank_def clearRect_def)

text \<open>
  \<^verbatim>\<open>init\<close> leaves the texture layer's context in the default drawing state, and
  \<^verbatim>\<open>renderTextureLayer\<close>, the only operation that draws on it, returns it in the drawing
  state it found.
\<close>

lemma renderTextureLayer_keeps_state:
  assumes "textureLayerCtx e = Some ctx"
  shows "\<exists>ctx'. textureLayerCtx (renderTextureLayer pf dirtyX dirtyY dirtyR e) = Some ctx'
           \<and> cur ctx' = cur ctx \<and> saved ctx' = saved ctx"
  using assms
  by (auto simp add: renderTextureLayer_def Let_def clearRect_def fillRect_def drawImage9_def
        draw_def save_def restore_def set_fillStyle_def set_globalCompositeOperation_def
        split: option.splits prod.splits)

lemma init_texture_layer_state:
  "\<exists>ctx. textureLayerCtx (init w h mapC waterC textureC pathC assetC textC e) = Some ctx
         \<and> cur ctx = default_dstate \<and> saved ctx = []"
  by (simp add: init_def Let_def clearRect_def set_height_def set_width_def new_context_def)

text \<open>
  Claim C4. The texture layer's context is in the state in which \<^verbatim>\<open>init\<close> leaves it and
  every call returns it (no transform, global alpha 1, source-over, no shadow). With a
  texture image that has pixels, every pixel \<open>p\<close> of the rectangle that
  \<^verbatim>\<open>renderTextureLayer\<close> works on (the dirty box cut to the canvas, or the whole canvas)
  ends as the image's pixel at \<open>p\<close> modulo the image size, that is the pattern tiled from
  the canvas origin, multiplied by the texture mask's alpha at \<open>p\<close> and then by the land
  mask's alpha at \<open>p\<close>. Without a texture image the call makes every pixel of the layer
  transparent when no dirty region is given, and every pixel of the layer inside the
  dirty box otherwise.
\<close>

theorem texture_layer_is_masked_pattern:
  assumes tl: "textureLayerCtx e = Some ctx"
    and plain: "transform (cur ctx) = []" "globalAlpha (cur ctx) = 1"
      "globalCompositeOperation (cur ctx) = SourceOver" "\<not> shadows_drawn (cur ctx)"
    and img: "currentTextureImg e = Some img" "0 < width img" "0 < height img"
    and rect: "dirty_rect (width (canvas ctx)) (height (canvas ctx)) dirtyX dirtyY dirtyR
                 = Some (X, Y, W, H)"
    and p: "in_rect X Y W H p"
    and tl0: "textureLayerCtx e0 = Some ctx0" and noimg: "currentTextureImg e0 = None"
    and q: "in_canvas (canvas ctx0) q"
    and q': "in_canvas (canvas ctx0) q'" "in_rect \<lfloor>x - r\<rfloor> \<lfloor>y - r\<rfloor> \<lceil>r * 2\<rceil> \<lceil>r * 2\<rceil> q'"
  shows "(\<exists>ctx'. textureLayerCtx (renderTextureLayer pf dirtyX dirtyY dirtyR e) = Some ctx'
           \<and> pix (canvas ctx') p =
               px_scale (pa (get (canvas (maskCtx e)) p))
                 (px_scale (pa (get (canvas (textureMaskCtx e)) p))
                    (get img (fst p mod width img, snd p mod height img))))
       \<and> (\<exists>ctx'. textureLayerCtx (renderTextureLayer pf None None None e0) = Some ctx'
           \<and> pix (canvas ctx') q = transparent)
       \<and> (\<exists>ctx'. textureLayerCtx (renderTextureLayer pf (Some x) (Some y) (Some r) e0) = Some ctx'
           \<and> pix (canvas ctx') q' = transparent)"
proof -
  from dirty_rect_inside[OF rect p]
  have inside: "in_canvas (canvas ctx) p" and pos: "0 < W" "0 < H"
    by (simp_all add: in_canvas_def)
  have sh: "\<not> shadows_drawn (cur ctx\<lparr>fillStyle := f, globalCompositeOperation := op\<rparr>)" for f op
    using plain(4) by (simp add: shadows_drawn_def)
  have sh2: "\<not> shadows_drawn (cur ctx\<lparr>fillStyle := f\<rparr>)" for f
    using plain(4) by (simp add: shadows_drawn_def)
  have A: "\<exists>ctx'. textureLayerCtx (renderTextureLayer pf dirtyX dirtyY dirtyR e) = Some ctx'
           \<and> pix (canvas ctx') p =
               px_scale (pa (get (canvas (maskCtx e)) p))
                 (px_scale (pa (get (canvas (textureMaskCtx e)) p))
                    (get img (fst p mod width img, snd p mod height img)))"
    using tl plain img rect p inside pos sh sh2
    by (simp add: renderTextureLayer_def Let_def createPattern_def fillRect_def drawImage9_def
          draw_def image_A_def paint_def clearRect_def save_def restore_def set_fillStyle_def
          set_globalCompositeOperation_def in_canvas_def is_int_of_int px_simps in_rect_def)
  have qr: "in_rect 0 0 (width (canvas ctx0)) (height (canvas ctx0)) q"
    using q by (simp add: in_rect_def in_canvas_def)
  have B: "\<exists>ctx'. textureLayerCtx (renderTextureLayer pf None None None e0) = Some ctx'
           \<and> pix (canvas ctx') q = transparent"
    using tl0 noimg clearRect_pixel[OF q qr] by (simp add: renderTextureLayer_def)
  have C: "\<exists>ctx'. textureLayerCtx (renderTextureLayer pf (Some x) (Some y) (Some r) e0) = Some ctx'
           \<and> pix (canvas ctx') q' = transparent"
    using tl0 noimg clearRect_pixel[OF q'] by (simp add: renderTextureLayer_def)
  show ?thesis using A B C by blast
qed

theorem texture_layer_is_masked_pattern_witness:
  "textureLayerCtx textured_engine = Some demo_texture_ctx
   \<and> transform (cur demo_texture_ctx) = [] \<and> globalAlpha (cur demo_texture_ctx) = 1
   \<and> globalCompositeOperation (cur demo_texture_ctx) = SourceOver
   \<and> \<not> shadows_drawn (cur demo_texture_ctx)
   \<and> currentTextureImg textured_engine = Some demo_tile
   \<and> 0 < width demo_tile \<and> 0 < height demo_tile
   \<and> dirty_rect (width (canvas demo_texture_ctx)) (height (canvas demo_texture_ctx))
        (Some 100) (Some 50) (Some 45) = Some (55, 5, 90, 90)
   \<and> in_rect 55 5 90 90 (60, 10)
   \<and> textureLayerCtx untextured_engine = Some demo_texture_ctx
   \<and> currentTextureImg untextured_engine = None
   \<and> in_canvas (canvas demo_texture_ctx) (700, 300)
   \<and> in_rect \<lfloor>100 - 45 :: real\<rfloor> \<lfloor>50 - 45 :: real\<rfloor> \<lceil>45 * 2 :: real\<rceil> \<lceil>45 * 2 :: real\<rceil> (60, 10)
   \<and> (\<exists>ctx'. textureLayerCtx (renderTextureLayer demo_platform (Some 100) (Some 50) (Some 45)
                                  textured_engine) = Some ctx'
          \<and> pix (canvas ctx') (60, 10) = Pixel 0 (1 / 4) 0 (1 / 2))
   \<and> (\<exists>ctx'. textureLayerCtx (renderTextureLayer demo_platform None None None untextured_engine)
                = Some ctx'
          \<and> pix (canvas ctx') (700, 300) = transparent)
   \<and> (\<exists>ctx'. textureLayerCtx (renderTextureLayer demo_platform (Some 100) (Some 50) (Some 45)
                                  untextured_engine) = Some ctx'
          \<and> pix (canvas ctx') (60, 10) = transparent)"
proof -
  have tl: "textureLayerCtx textured_engine = Some demo_texture_ctx"
    and tl0: "textureLayerCtx untextured_engine = Some demo_texture_ctx"
    by (simp_all add: demo_texture_layer)
  have plain: "transform (cur demo_texture_ctx) = []" "globalAlpha (cur demo_texture_ctx) = 1"
    "globalCompositeOperation (cur demo_texture_ctx) = SourceOver"
    "\<not> shadows_drawn (cur demo_texture_ctx)"
    by (simp_all add: demo_texture_layer default_dstate_def shadows_drawn_def)
  have img: "currentTextureImg textured_engine = Some demo_tile"
    "0 < width demo_tile" "0 < height demo_tile"
    by (simp_all add: textured_engine_def demo_tile_def)
  have rect: "dirty_rect (width (canvas demo_texture_ctx)) (height (canvas demo_texture_ctx))
        (Some 100) (Some 50) (Some 45) = Some (55, 5, 90, 90)"
    by (simp add: demo_texture_layer dirty_rect_def)
  have p: "in_rect 55 5 90 90 (60, 10)" by (simp add: in_rect_def)
  have noimg: "currentTextureImg untextured_engine = None"
    by (simp add: untextured_engine_def demo_world_def init_def new_MapEngine_def)
  have q: "in_canvas (canvas demo_texture_ctx) (700, 300)"
    "in_canvas (canvas demo_texture_ctx) (60, 10)"
    by (simp_all add: in_canvas_def demo_texture_layer)
  have q': "in_rect \<lfloor>100 - 45 :: real\<rfloor> \<lfloor>50 - 45 :: real\<rfloor> \<lceil>45 * 2 :: real\<rceil> \<lceil>45 * 2 :: real\<rceil> (60, 10)"
    by (simp add: in_rect_def)
  have v: "px_scale (pa (get (canvas (maskCtx textured_engine)) (60, 10)))
             (px_scale (pa (get (canvas (textureMaskCtx textured_engine)) (60, 10)))
                (get demo_tile (fst (60, 10) mod width demo_tile, snd (60, 10) mod height demo_tile)))
           = Pixel 0 (1 / 4) 0 (1 / 2)"
    by (simp add: textured_engine_def untextured_engine_def demo_tile_def get_def in_canvas_def
          px_scale_def)
  show ?thesis
    using tl tl0 plain img rect p noimg q(1) q'
      texture_layer_is_masked_pattern [OF tl plain img rect p tl0 noimg q(1) q(2) q',
        where pf = demo_platform]
    unfolding v by simp
qed

text \<open>
  A texture image without pixels gives no pattern: the rectangle is cleared and stays
  transparent.
\<close>

lemma texture_layer_without_pattern:
  assumes tl: "textureLayerCtx e = Some ctx"
    and plain: "transform (cur ctx) = []" "\<not> shadows_drawn (cur ctx)"
    and img: "currentTextureImg e = Some img" "width img \<le> 0 \<or> height img \<le> 0"
    and rect: "dirty_rect (width (canvas ctx)) (height (canvas ctx)) dirtyX dirtyY dirtyR
                 = Some (X, Y, W, H)"
    and p: "in_rect X Y W H p"
  shows "\<exists>ctx'. textureLayerCtx (renderTextureLayer pf dirtyX dirtyY dirtyR e) = Some ctx'
           \<and> pix (canvas ctx') p = transparent"
proof -
  from dirty_rect_inside[OF rect p]
  have inside: "in_canvas (canvas ctx) p" and pos: "0 < W" "0 < H"
    by (simp_all add: in_canvas_def)
  have sh: "\<not> shadows_drawn (cur ctx\<lparr>globalCompositeOperation := op\<rparr>)" for op
    using plain(2) by (simp add: shadows_drawn_def)
  show ?thesis
    using tl plain img rect p inside pos sh
    by (auto simp add: renderTextureLayer_def Let_def createPattern_def drawImage9_def
          draw_def image_A_def paint_def clearRect_def save_def restore_def
          set_globalCompositeOperation_def in_canvas_def is_int_of_int px_simps in_rect_def)
qed

section \<open>Dirty rectangle and full recompute\<close>

text \<open>
  Claim C5. When the dirty box computed from \<open>(x, y, r)\<close> contains the whole canvas of the
  texture layer, \<^verbatim>\<open>renderTextureLayer(x, y, r)\<close> returns exactly the engine that
  \<^verbatim>\<open>renderTextureLayer()\<close> returns: the same pixels on every layer, whatever the texture
  image (present or not) and the two masks are. A square \<open>[x - r, x + r]\<close> by
  \<open>[y - r, y + r]\<close> that contains the canvas gives such a box (\<open>square_covers\<close>).
\<close>

theorem covering_dirty_square_equals_full_recompute:
  assumes "textureLayerCtx e = Some ctx" and "covers_canvas x y r (canvas ctx)"
  shows "renderTextureLayer pf (Some x) (Some y) (Some r) e = renderTextureLayer pf None None None e"
proof -
  have c: "\<lfloor>x - r\<rfloor> \<le> 0" "\<lfloor>y - r\<rfloor> \<le> 0"
    "width (canvas ctx) \<le> \<lfloor>x - r\<rfloor> + \<lceil>r * 2\<rceil>" "height (canvas ctx) \<le> \<lfloor>y - r\<rfloor> + \<lceil>r * 2\<rceil>"
    using assms(2) by (simp_all add: covers_canvas_def)
  show ?thesis
  proof (cases "currentTextureImg e")
    case None
    then show ?thesis
      using assms(1) clearRect_cover[OF c]
      by (simp add: renderTextureLayer_def)
  next
    case (Some img)
    show ?thesis
    proof (cases "width (canvas ctx) \<le> 0 \<or> height (canvas ctx) \<le> 0")
      case True
      have "renderTextureLayer pf (Some x) (Some y) (Some r) e = e"
        using assms(1) Some True dirty_rect_cover[OF c]
        by (simp add: renderTextureLayer_def)
      then show ?thesis
        using render_empty_canvas[OF assms(1) Some True] by simp
    next
      case False
      have "dirty_rect (width (canvas ctx)) (height (canvas ctx)) (Some x) (Some y) (Some r)
              = dirty_rect (width (canvas ctx)) (height (canvas ctx)) None None None"
        using False dirty_rect_cover[OF c] by (simp add: dirty_rect_def)
      then show ?thesis
        using assms(1) Some by (simp add: renderTextureLayer_def)
    qed
  qed
qed

theorem covering_dirty_square_equals_full_recompute_witness:
  "textureLayerCtx textured_engine = Some demo_texture_ctx
   \<and> covers_canvas 360 180 400 (canvas demo_texture_ctx)
   \<and> renderTextureLayer demo_platform (Some 360) (Some 180) (Some 400) textured_engine
        = renderTextureLayer demo_platform None None None textured_engine"
proof -
  have tl: "textureLayerCtx textured_engine = Some demo_texture_ctx"
    by (simp add: demo_texture_layer)
  have c: "covers_canvas 360 180 400 (canvas demo_texture_ctx)"
    by (simp add: covers_canvas_def demo_texture_layer)
  show ?thesis
    using tl c covering_dirty_square_equals_full_recompute [OF tl c, where pf = demo_platform]
    by simp
qed

section \<open>Snapshots\<close>

text \<open>
  \<^verbatim>\<open>drawPathSegment\<close> assigns \<^verbatim>\<open>ctx.globalAlpha\<close> on the path layer's context outside
  any save and restore, so the brush opacity of the last segment stays on the context.
\<close>

lemma drawPathSegment_leaves_globalAlpha:
  assumes "pathCtx e = Some ctx" and "0.5 \<le> hypot (x2 - x1) (y2 - y1)"
    and "0 \<le> brushBlur state / 100" and "brushBlur state / 100 \<le> 1"
  shows "\<exists>e' ms c. drawPathSegment pf x1 y1 x2 y2 state e = Some (e', ms)
           \<and> pathCtx e' = Some c \<and> globalAlpha (cur c) = brushBlur state / 100"
proof -
  let ?L = "hypot (x2 - x1) (y2 - y1)"
  let ?S = "max 1 (brushSize state * pathSpacing state)"
  let ?c1 = "set_globalAlpha (brushBlur state / 100)
               (set_fillStyle (FillColor (ColorText (pathColor state))) ctx)"
  have S: "0 < ?S" by simp
  from path_loop_run[OF S, of pf state x1 y1 "(x2 - x1) / ?L" "(y2 - y1) / ?L"
      "atan2 (y2 - y1) (x2 - x1)" ?L "pathRemainder e" ?c1 "[]"]
  obtain c' ctx' ms' where
    r: "path_loop pf state x1 y1 ((x2 - x1) / ?L) ((y2 - y1) / ?L) (atan2 (y2 - y1) (x2 - x1))
          ?S ?L (pathRemainder e) ?c1 [] = Some (c', ctx', ms')"
    and k: "cur ctx' = cur ?c1"
    by blast
  have "globalAlpha (cur ctx') = brushBlur state / 100"
    using assms(3,4) by (simp add: k set_globalAlpha_def set_fillStyle_def)
  moreover have "\<not> ?L < 0.5" using assms(2) by simp
  ultimately show ?thesis
    using drawPathSegment_run[OF assms(1) _ r] by simp
qed

text \<open>
  What the \<^verbatim>\<open>onload\<close> handler of \<^verbatim>\<open>loadLayer\<close> leaves on an untransformed context: inside
  the cleared rectangle, the decoded image multiplied by the context's global alpha.
\<close>

lemma small_path: "pathCtx small_engine = Some (new_context 2 2)"
  by (simp add: small_engine_def init_def set_width_def set_height_def new_context_def blank_def)

lemma small_rem: "pathRemainder small_engine = 0"
  by (simp add: small_engine_def init_def new_MapEngine_def)

lemma loop1:
  "path_loop pf st 0 0 1 0 a (75/2) 1 0 ctx [] = Some (75/2, draw_mark pf st a 0 0 ctx, [(0, 0)])"
  by (simp add: path_loop_step path_loop_stop)

lemma drawn:
  "drawPathSegment snap_platform 0 0 1 0 (demo_state\<lparr>brushBlur := 50\<rparr>) small_engine
     = Some (path_drawn_engine, [(0, 0)])"
  apply (simp add: path_drawn_engine_def drawPathSegment_def small_path small_rem Let_def hypot_axis demo_state_def loop1)
  done

lemma onload_pathCtx:
  "pathCtx (onload pf (PendingLoad l src w h) e) =
     (if l = PathLayer
      then (case decodeImage pf src of None \<Rightarrow> pathCtx e
            | Some img \<Rightarrow> map_option (loadLayer_draw pf img w h) (pathCtx e))
      else pathCtx e)"
  by (cases l) (simp_all add: onload_def renderTextureLayer_frame split: option.splits)

lemma loadLayer_draw_pixel:
  assumes "transform (cur ctx) = []" and "globalCompositeOperation (cur ctx) = SourceOver"
    and "\<not> shadows_drawn (cur ctx)"
    and "0 < width img" and "0 < height img"
    and "in_canvas (canvas ctx) p" and "in_rect 0 0 w h p"
  shows "pix (canvas (loadLayer_draw pf img w h ctx)) p = px_scale (globalAlpha (cur ctx)) (get img p)"
proof -
  have wh: "0 < w" "0 < h" using assms(7) by (auto simp add: in_rect_def)
  have z: "is_int 0" by (simp add: is_int_def)
  have g: "\<not> in_rect 0 0 (width img) (height img) p \<Longrightarrow> get img p = transparent"
    by (auto simp add: in_rect_def get_def in_canvas_def)
  show ?thesis
    using assms wh z g
    by (simp add: loadLayer_draw_def drawImage_def drawImage9_def draw_def Let_def image_A_def
          paint_def clearRect_def is_int_of_int px_simps min_def in_canvas_def)
qed

lemma drawn_eq:
  "path_drawn_engine =
     small_engine\<lparr>pathCtx := Some (draw_mark snap_platform (demo_state\<lparr>brushBlur := 50\<rparr>) (atan2 0 1) 0 0
        (set_globalAlpha (1 / 2) (set_fillStyle (FillColor (ColorText ''#ffffff'')) (new_context 2 2)))),
       pathRemainder := 73 / 2\<rparr>"
  by (simp add: path_drawn_engine_def drawPathSegment_def small_path small_rem Let_def hypot_axis
        demo_state_def loop1)

lemma dotted_ctx:
  "draw_mark snap_platform (demo_state\<lparr>brushBlur := 50\<rparr>) (atan2 0 1) 0 0
        (set_globalAlpha (1 / 2) (set_fillStyle (FillColor (ColorText ''#ffffff'')) (new_context 2 2)))
   = \<lparr>canvas = \<lparr>width = 2, height = 2,
         pix = (\<lambda>p. if p = (0, 0) then Pixel (1 / 2) (1 / 2) (1 / 2) (1 / 2) else transparent)\<rparr>,
      cur = default_dstate\<lparr>globalAlpha := 1 / 2, fillStyle := FillColor (ColorText ''#ffffff'')\<rparr>,
      saved = [], path = [Arc 0 0 (15 / 2) 0 (pi * 2)]\<rparr>"
  by (simp add: draw_mark_def fill_def arc_def beginPath_def draw_def set_globalAlpha_def set_fillStyle_def
      new_context_def default_dstate_def shadows_drawn_def Let_def image_A_def snap_platform_def paint_def blank_def
      in_canvas_def px_scale_def px_add_def transparent_def fun_eq_iff demo_state_def)

lemma snapshot_of_drawn:
  "getSnapshot snap_platform path_drawn_engine
     = Inr (Some \<lparr>map_blob = ''blank'', mask_blob = ''blank'',
                   textureMask_blob = Some ''blank'', path_blob = ''dot''\<rparr>)"
  unfolding drawn_eq dotted_ctx
  by (simp add: getSnapshot_def small_engine_def init_def snap_platform_def get_def in_canvas_def
        set_width_def set_height_def new_context_def blank_def clearRect_def transparent_def
        new_MapEngine_def createElement_canvas_def)


lemma restored_path:
  "pathCtx (fold (onload snap_platform)
      (snd (loadSnapshot \<lparr>map_blob = ''blank'', mask_blob = ''blank'',
                   textureMask_blob = Some ''blank'', path_blob = ''dot''\<rparr> 2 2 path_drawn_engine))
      (fst (loadSnapshot \<lparr>map_blob = ''blank'', mask_blob = ''blank'',
                   textureMask_blob = Some ''blank'', path_blob = ''dot''\<rparr> 2 2 path_drawn_engine)))
   = map_option (loadLayer_draw snap_platform dot_canvas 2 2) (pathCtx path_drawn_engine)"
proof -
  have d: "decodeImage snap_platform ''dot'' = Some dot_canvas"
    by (simp add: snap_platform_def)
  have m: "mapCtx path_drawn_engine \<noteq> None" "pathCtx path_drawn_engine \<noteq> None"
    by (simp_all add: drawn_eq small_engine_def init_def)
  show ?thesis
    using m by (simp add: loadSnapshot_def truthy_def Let_def onload_pathCtx d)
qed

text \<open>
  Capture followed at once by restore, once all four blobs have decoded, on contexts as
  above and with a codec that is lossless on the four canvases: every one of the four
  layers ends as its captured content multiplied by the global alpha of its own context.
  That is the captured content itself exactly when that global alpha is 1.
\<close>

lemma loadLayer_draw_dims:
  "width (canvas (loadLayer_draw pf img w h c)) = width (canvas c)"
  "height (canvas (loadLayer_draw pf img w h c)) = height (canvas c)"
  by (simp_all add: loadLayer_draw_def drawImage_def drawImage9_def draw_def Let_def paint_def
        clearRect_def)

lemma loadLayer_draw_get:
  assumes "restorable c w h" and "width img = width (canvas c)" and "height img = height (canvas c)"
  shows "get (canvas (loadLayer_draw pf img w h c)) p = px_scale (globalAlpha (cur c)) (get img p)"
proof (cases "in_canvas (canvas c) p")
  case True
  have r: "transform (cur c) = []" "globalCompositeOperation (cur c) = SourceOver"
    "\<not> shadows_drawn (cur c)" "0 < width img" "0 < height img"
    using assms by (simp_all add: restorable_def)
  have "in_rect 0 0 w h p"
    using True assms(1) by (auto simp add: in_rect_def in_canvas_def restorable_def)
  from loadLayer_draw_pixel[OF r True this, of pf]
  show ?thesis using True by (simp add: get_def in_canvas_def loadLayer_draw_dims)
next
  case False
  then have 1: "\<not> in_canvas img p" using assms(2,3) by (simp add: in_canvas_def)
  have 2: "\<not> in_canvas (canvas (loadLayer_draw pf img w h c)) p"
    using False by (simp add: in_canvas_def loadLayer_draw_dims)
  show ?thesis by (simp add: get_def 1 2 px_simps)
qed

lemma onload_frames:
  "mapCtx (onload pf (PendingLoad l src w h) e) =
     (if l = MapLayer
      then (case decodeImage pf src of None \<Rightarrow> mapCtx e
            | Some img \<Rightarrow> map_option (loadLayer_draw pf img w h) (mapCtx e))
      else mapCtx e)"
  "maskCtx (onload pf (PendingLoad l src w h) e) =
     (if l = MaskLayer
      then (case decodeImage pf src of None \<Rightarrow> maskCtx e
            | Some img \<Rightarrow> loadLayer_draw pf img w h (maskCtx e))
      else maskCtx e)"
  "textureMaskCtx (onload pf (PendingLoad l src w h) e) =
     (if l = TextureMaskLayer
      then (case decodeImage pf src of None \<Rightarrow> textureMaskCtx e
            | Some img \<Rightarrow> loadLayer_draw pf img w h (textureMaskCtx e))
      else textureMaskCtx e)"
  by (cases l; simp add: onload_def renderTextureLayer_frame split: option.splits)+

lemma snapshot_restore_scales_by_globalAlpha:
  assumes init: "mapCtx e = Some m" "pathCtx e = Some pc"
    and r: "restorable m w h" "restorable pc w h" "restorable (maskCtx e) w h"
      "restorable (textureMaskCtx e) w h"
    and l: "lossless pf (canvas m)" "lossless pf (canvas pc)" "lossless pf (canvas (maskCtx e))"
      "lossless pf (canvas (textureMaskCtx e))"
    and url: "toDataURL pf (canvas (textureMaskCtx e)) \<noteq> []"
  shows "\<exists>snap m' pc'. getSnapshot pf e = Inr (Some snap)
     \<and> (let e' = fold (onload pf) (snd (loadSnapshot snap w h e)) (fst (loadSnapshot snap w h e))
        in mapCtx e' = Some m' \<and> pathCtx e' = Some pc'
         \<and> (\<forall>p. get (canvas m') p = px_scale (globalAlpha (cur m)) (get (canvas m) p))
         \<and> (\<forall>p. get (canvas pc') p = px_scale (globalAlpha (cur pc)) (get (canvas pc) p))
         \<and> (\<forall>p. get (canvas (maskCtx e')) p
                 = px_scale (globalAlpha (cur (maskCtx e))) (get (canvas (maskCtx e)) p))
         \<and> (\<forall>p. get (canvas (textureMaskCtx e')) p
                 = px_scale (globalAlpha (cur (textureMaskCtx e)))
                     (get (canvas (textureMaskCtx e)) p)))"
proof -
  from l(1) obtain im where im: "decodeImage pf (toDataURL pf (canvas m)) = Some im"
    "width im = width (canvas m)" "height im = height (canvas m)" "\<forall>p. get im p = get (canvas m) p"
    unfolding lossless_def by blast
  from l(2) obtain ip where ip: "decodeImage pf (toDataURL pf (canvas pc)) = Some ip"
    "width ip = width (canvas pc)" "height ip = height (canvas pc)" "\<forall>p. get ip p = get (canvas pc) p"
    unfolding lossless_def by blast
  from l(3) obtain ik where ik: "decodeImage pf (toDataURL pf (canvas (maskCtx e))) = Some ik"
    "width ik = width (canvas (maskCtx e))" "height ik = height (canvas (maskCtx e))"
    "\<forall>p. get ik p = get (canvas (maskCtx e)) p"
    unfolding lossless_def by blast
  from l(4) obtain it where it: "decodeImage pf (toDataURL pf (canvas (textureMaskCtx e))) = Some it"
    "width it = width (canvas (textureMaskCtx e))" "height it = height (canvas (textureMaskCtx e))"
    "\<forall>p. get it p = get (canvas (textureMaskCtx e)) p"
    unfolding lossless_def by blast
  let ?snap = "\<lparr>map_blob = toDataURL pf (canvas m), mask_blob = toDataURL pf (canvas (maskCtx e)),
                 textureMask_blob = Some (toDataURL pf (canvas (textureMaskCtx e))),
                 path_blob = toDataURL pf (canvas pc)\<rparr>"
  have s: "getSnapshot pf e = Inr (Some ?snap)"
    using init by (simp add: getSnapshot_def)
  have ls: "loadSnapshot ?snap w h e =
              (e, [PendingLoad MapLayer (toDataURL pf (canvas m)) w h,
                   PendingLoad PathLayer (toDataURL pf (canvas pc)) w h,
                   PendingLoad MaskLayer (toDataURL pf (canvas (maskCtx e))) w h,
                   PendingLoad TextureMaskLayer (toDataURL pf (canvas (textureMaskCtx e))) w h])"
    using init url by (simp add: loadSnapshot_def truthy_def Let_def)
  let ?e' = "fold (onload pf) (snd (loadSnapshot ?snap w h e)) (fst (loadSnapshot ?snap w h e))"
  have a: "mapCtx ?e' = Some (loadLayer_draw pf im w h m)"
    unfolding ls using init im(1) by (simp add: onload_frames)
  have b: "pathCtx ?e' = Some (loadLayer_draw pf ip w h pc)"
    unfolding ls using init ip(1) by (simp add: onload_pathCtx)
  have c: "maskCtx ?e' = loadLayer_draw pf ik w h (maskCtx e)"
    unfolding ls using ik(1) by (simp add: onload_frames)
  have d: "textureMaskCtx ?e' = loadLayer_draw pf it w h (textureMaskCtx e)"
    unfolding ls using it(1) by (simp add: onload_frames)
  show ?thesis
    using s a b c d
      loadLayer_draw_get[OF r(1) im(2,3), of pf] im(4)
      loadLayer_draw_get[OF r(2) ip(2,3), of pf] ip(4)
      loadLayer_draw_get[OF r(3) ik(2,3), of pf] ik(4)
      loadLayer_draw_get[OF r(4) it(2,3), of pf] it(4)
    by (simp add: Let_def)
qed

text \<open>
  Claim C9, evaluated where it fails. On the 2 by 2 map one path segment is drawn with
  brush opacity 50; it puts a half transparent white mark on pixel \<open>(0, 0)\<close> of the path
  layer. \<^verbatim>\<open>getSnapshot\<close> is taken and restored at once with \<^verbatim>\<open>loadSnapshot\<close>, all four
  blobs decode, and the decoded path image has exactly the pixels of the path layer. After
  the restore the pixel \<open>(0, 0)\<close> of the path layer has alpha \<open>1 / 4\<close> instead of
  \<open>1 / 2\<close>: the image was drawn with the global alpha \<open>1 / 2\<close> that the path segment left
  on the context.
\<close>

theorem snapshot_restore_fades_path_layer:
  "\<exists>snap img c1 c2.
      drawPathSegment snap_platform 0 0 1 0 (demo_state\<lparr>brushBlur := 50\<rparr>) small_engine
        = Some (path_drawn_engine, [(0, 0)])
    \<and> getSnapshot snap_platform path_drawn_engine = Inr (Some snap)
    \<and> pathCtx path_drawn_engine = Some c1
    \<and> decodeImage snap_platform (path_blob snap) = Some img
    \<and> (\<forall>p. get img p = get (canvas c1) p)
    \<and> pathCtx (fold (onload snap_platform) (snd (loadSnapshot snap 2 2 path_drawn_engine))
                 (fst (loadSnapshot snap 2 2 path_drawn_engine))) = Some c2
    \<and> pix (canvas c1) (0, 0) = Pixel (1 / 2) (1 / 2) (1 / 2) (1 / 2)
    \<and> pix (canvas c2) (0, 0) = Pixel (1 / 4) (1 / 4) (1 / 4) (1 / 4)"
proof -
  let ?c1 = "\<lparr>canvas = \<lparr>width = 2, height = 2,
         pix = (\<lambda>p. if p = (0, 0) then Pixel (1 / 2) (1 / 2) (1 / 2) (1 / 2) else transparent)\<rparr>,
      cur = default_dstate\<lparr>globalAlpha := 1 / 2, fillStyle := FillColor (ColorText ''#ffffff'')\<rparr>,
      saved = [], path = [Arc 0 0 (15 / 2) 0 (pi * 2)]\<rparr>"
  have c1: "pathCtx path_drawn_engine = Some ?c1"
    unfolding drawn_eq dotted_ctx by simp
  have d: "decodeImage snap_platform ''dot'' = Some dot_canvas"
    by (simp add: snap_platform_def)
  have l: "\<forall>p. get dot_canvas p = get (canvas ?c1) p"
    by (simp add: dot_canvas_def get_def in_canvas_def)
  have px: "pix (canvas (loadLayer_draw snap_platform dot_canvas 2 2 ?c1)) (0, 0)
              = px_scale (globalAlpha (cur ?c1)) (get dot_canvas (0, 0))"
    by (rule loadLayer_draw_pixel)
       (simp_all add: default_dstate_def shadows_drawn_def dot_canvas_def in_canvas_def in_rect_def)
  have v: "px_scale (globalAlpha (cur ?c1)) (get dot_canvas (0, 0)) = Pixel (1 / 4) (1 / 4) (1 / 4) (1 / 4)"
    by (simp add: px_scale_def dot_canvas_def get_def in_canvas_def default_dstate_def)
  show ?thesis
    using drawn snapshot_of_drawn c1 d l restored_path px v
    by (intro exI[of _ "\<lparr>map_blob = ''blank'', mask_blob = ''blank'',
                   textureMask_blob = Some ''blank'', path_blob = ''dot''\<rparr>"]
          exI[of _ dot_canvas] exI[of _ ?c1]
          exI[of _ "loadLayer_draw snap_platform dot_canvas 2 2 ?c1"]) simp
qed

end
